theory Spec2Isabelle
  imports Complex_Main
begin

section \<open>JavaScript values\<close>

text \<open>
  The metric components receive untyped data (\<open>stats: any\<close>), test it with \<open>typeof\<close>
  and read properties from it. A finite number is the rational value of a binary64
  double; arithmetic on numbers rounds its exact result to the nearest double (see
  \<open>round64\<close> below). The sign of zero is not modelled.
\<close>

datatype jsnum = Fin rat | NaN | PosInf | NegInf

datatype jsval =
    JUndefined
  | JNull
  | JBool bool
  | JNum jsnum
  | JStr string
  | JObj "(string \<times> jsval) list"
  | JFun

datatype js_error = TypeError

text \<open>\<open>typeof v\<close>: \<open>null\<close> reports \<open>object\<close>.\<close>

fun typeof :: "jsval \<Rightarrow> string" where
  "typeof JUndefined = ''undefined''"
| "typeof JNull = ''object''"
| "typeof (JBool b) = ''boolean''"
| "typeof (JNum n) = ''number''"
| "typeof (JStr s) = ''string''"
| "typeof (JObj fs) = ''object''"
| "typeof JFun = ''function''"

text \<open>
  \<open>v.k\<close> for a data property \<open>k\<close>: reading from \<open>undefined\<close> or \<open>null\<close> throws a
  TypeError, an absent property reads as \<open>undefined\<close>. Primitives and functions carry
  none of the property names read here.
\<close>

fun get_prop :: "jsval \<Rightarrow> string \<Rightarrow> js_error + jsval" where
  "get_prop JUndefined k = Inl TypeError"
| "get_prop JNull k = Inl TypeError"
| "get_prop (JObj fs) k = Inr (case map_of fs k of None \<Rightarrow> JUndefined | Some v \<Rightarrow> v)"
| "get_prop v k = Inr JUndefined"

section \<open>Histogram\<close>

text \<open>
  Modelled from the spec: \<open>utils/metrics/histogram\<close> (the class \<open>Histogram\<close> with
  \<open>update\<close> and \<open>percentiles\<close>) is not among the sources. The spec describes a
  fixed-capacity sample window; every observation is counted, a non-finite one is not
  folded into the window; on overflow a replacement policy decides which retained sample
  the new one replaces; \<open>percentiles\<close> sorts the retained window and interpolates
  linearly between order statistics, and an empty window yields the "no data" value for
  every rank.

  The capacity and the replacement policy are parameters: \<open>h_policy h n\<close> names, for
  the \<open>n\<close>-th observation arriving at a full window, the slot to overwrite
  (\<open>Some i\<close>, taken modulo the capacity) or discards the observation (\<open>None\<close>). A ring
  buffer is \<open>\<lambda>n. Some n\<close>.
\<close>

record histogram =
  h_capacity :: nat
  h_policy :: "nat \<Rightarrow> nat option"
  h_count :: nat
  h_sample :: "rat list"

definition new_histogram :: "nat \<Rightarrow> (nat \<Rightarrow> nat option) \<Rightarrow> histogram" where
  "new_histogram cap pol =
     \<lparr>h_capacity = cap, h_policy = pol, h_count = 0, h_sample = []\<rparr>"

definition retain :: "rat \<Rightarrow> histogram \<Rightarrow> rat list" where
  "retain x h =
     (if length (h_sample h) < h_capacity h then h_sample h @ [x]
      else (case h_policy h (h_count h) of
              None \<Rightarrow> h_sample h
            | Some i \<Rightarrow> (h_sample h)[i mod h_capacity h := x]))"

text \<open>The finite number a value is, if it is one.\<close>

fun finite_of :: "jsval \<Rightarrow> rat option" where
  "finite_of (JNum (Fin x)) = Some x"
| "finite_of v = None"

definition update :: "jsval \<Rightarrow> histogram \<Rightarrow> histogram" where
  "update v h =
     (case finite_of v of
        Some x \<Rightarrow> h\<lparr>h_count := Suc (h_count h), h_sample := retain x h\<rparr>
      | None \<Rightarrow> h\<lparr>h_count := Suc (h_count h)\<rparr>)"

text \<open>Modelled from the spec: the "no data" value; the spec does not fix its representation.\<close>

definition no_data :: jsval where
  "no_data = JNull"

text \<open>
  Modelled from the spec: one rank of \<open>percentiles\<close>. With \<open>n\<close> retained samples in
  ascending order the rank \<open>p\<close> sits at position \<open>p * (n + 1)\<close> (counted from 1); below
  the first and from the last sample on the end sample is taken, in between the two
  neighbouring order statistics are interpolated. This places the median of 100, 0, 50
  at 50, as the spec's end-to-end property has it.
\<close>

definition percentile :: "rat list \<Rightarrow> rat \<Rightarrow> jsval" where
  "percentile vals p =
     (let n = length vals; pos = p * (of_nat n + 1) in
      if n = 0 then no_data
      else if pos < 1 then JNum (Fin (vals ! 0))
      else if of_nat n \<le> pos then JNum (Fin (vals ! (n - 1)))
      else (let lower = vals ! (nat \<lfloor>pos\<rfloor> - 1);
                upper = vals ! (nat \<lceil>pos\<rceil> - 1)
            in JNum (Fin (lower + (pos - of_int \<lfloor>pos\<rfloor>) * (upper - lower)))))"

definition percentiles :: "rat list \<Rightarrow> histogram \<Rightarrow> (rat \<times> jsval) list" where
  "percentiles ranks h = map (\<lambda>p. (p, percentile (sort (h_sample h)) p)) ranks"

text \<open>
  The handler registered for the p50 metrics (runtime metrics, \<open>init\<close>):
  \<open>const percentiles = this.implementation.percentiles([ 0.5 ]); return percentiles[0.5]\<close>.
  A missing key reads as \<open>undefined\<close>.
\<close>

definition p50_handler :: "histogram \<Rightarrow> jsval" where
  "p50_handler implementation =
     (case map_of (percentiles [1/2] implementation) (1/2) of
        None \<Rightarrow> JUndefined
      | Some v \<Rightarrow> v)"

definition p95_handler :: "histogram \<Rightarrow> jsval" where
  "p95_handler implementation =
     (case map_of (percentiles [95/100] implementation) (95/100) of
        None \<Rightarrow> JUndefined
      | Some v \<Rightarrow> v)"

text \<open>Observing a sequence of values, in order.\<close>

definition observe_all :: "jsval list \<Rightarrow> histogram \<Rightarrow> histogram" where
  "observe_all vs h = foldl (\<lambda>h v. update v h) h vs"

text \<open>The observations that are folded into the statistics: the finite numbers.\<close>

definition folded :: "jsval list \<Rightarrow> rat list" where
  "folded vs = List.map_filter finite_of vs"

section \<open>Number arithmetic and formatting\<close>

text \<open>
  Numbers are IEEE-754 binary64 values: 53 significant bits, exponents from -1022 to
  1023, round to nearest with ties to even. \<open>pow2 e\<close> is \<open>2^e\<close>. \<open>binade a\<close> is,
  for positive \<open>a\<close>, the exponent \<open>e\<close> with \<open>2^e \<le> a < 2^(e + 1)\<close>, and -1022 for the
  subnormal range below \<open>2^-1022\<close>: \<open>bin_up\<close> counts the halvings that bring \<open>a \<ge> 1\<close>
  below 2, \<open>bin_down\<close> the doublings that bring \<open>a < 1\<close> up to 1, stopping at -1022.
\<close>

definition pow2 :: "int \<Rightarrow> rat" where
  "pow2 e = (if 0 \<le> e then 2 ^ nat e else 1 / 2 ^ nat (- e))"

function bin_up :: "rat \<Rightarrow> int" where
  "bin_up a = (if 2 \<le> a then bin_up (a / 2) + 1 else 0)"
  by pat_completeness auto
termination
proof (relation "measure (\<lambda>a. nat \<lfloor>a\<rfloor>)")
  show "wf (measure (\<lambda>a::rat. nat \<lfloor>a\<rfloor>))" by simp
next
  fix a :: rat
  assume a: "2 \<le> a"
  then have "\<lfloor>a / 2\<rfloor> < \<lfloor>a\<rfloor>" by linarith
  moreover from a have "0 < \<lfloor>a\<rfloor>" by linarith
  ultimately show "(a / 2, a) \<in> measure (\<lambda>a. nat \<lfloor>a\<rfloor>)" by simp
qed

function bin_down :: "rat \<Rightarrow> int \<Rightarrow> int" where
  "bin_down a e = (if a < 1 \<and> - 1022 < e then bin_down (a * 2) (e - 1) else e)"
  by pat_completeness auto
termination
  by (relation "measure (\<lambda>(a, e). nat (e + 1022))") auto

declare bin_up.simps [simp del] bin_down.simps [simp del]

definition binade :: "rat \<Rightarrow> int" where
  "binade a = (if 1 \<le> a then bin_up a else bin_down a 0)"

text \<open>The integer nearest to \<open>t\<close>; of two equally near ones, the even one.\<close>

definition round_half_even :: "rat \<Rightarrow> int" where
  "round_half_even t =
     (let f = \<lfloor>t\<rfloor>; d = t - of_int f
      in if d < 1 / 2 then f
         else if 1 / 2 < d then f + 1
         else if even f then f else f + 1)"

text \<open>
  The double nearest to the rational \<open>x\<close>: the magnitude is rounded to a multiple of
  the spacing \<open>2^(e - 52)\<close> of its binade \<open>e\<close>; a result of \<open>2^1024\<close> or more overflows
  to an infinity.
\<close>

definition round64 :: "rat \<Rightarrow> jsnum" where
  "round64 x =
     (if x = 0 then Fin 0
      else (let a = \<bar>x\<bar>;
                q = pow2 (binade a - 52);
                r = of_int (round_half_even (a / q)) * q
            in if pow2 1024 \<le> r then (if x < 0 then NegInf else PosInf)
               else Fin (if x < 0 then - r else r)))"

text \<open>
  \<open>a / b\<close> and \<open>a * b\<close> on numbers: the exact quotient or product, rounded, with the
  non-finite cases of the language (\<open>x / 0\<close> is an infinity, \<open>0 / 0\<close> is \<open>NaN\<close>). A
  property that is absent reads as \<open>undefined\<close>, which arithmetic converts to \<open>NaN\<close>.
\<close>

fun js_div :: "jsnum \<Rightarrow> jsnum \<Rightarrow> jsnum" where
  "js_div (Fin a) (Fin b) =
     (if b = 0 then (if a = 0 then NaN else if 0 < a then PosInf else NegInf)
      else round64 (a / b))"
| "js_div (Fin a) PosInf = Fin 0"
| "js_div (Fin a) NegInf = Fin 0"
| "js_div PosInf (Fin b) = (if 0 \<le> b then PosInf else NegInf)"
| "js_div NegInf (Fin b) = (if 0 \<le> b then NegInf else PosInf)"
| "js_div NaN b = NaN"
| "js_div a NaN = NaN"
| "js_div PosInf PosInf = NaN"
| "js_div PosInf NegInf = NaN"
| "js_div NegInf PosInf = NaN"
| "js_div NegInf NegInf = NaN"

fun js_mul :: "jsnum \<Rightarrow> jsnum \<Rightarrow> jsnum" where
  "js_mul (Fin a) (Fin b) = round64 (a * b)"
| "js_mul NaN b = NaN"
| "js_mul a NaN = NaN"
| "js_mul PosInf (Fin b) = (if b = 0 then NaN else if 0 < b then PosInf else NegInf)"
| "js_mul NegInf (Fin b) = (if b = 0 then NaN else if 0 < b then NegInf else PosInf)"
| "js_mul (Fin a) PosInf = (if a = 0 then NaN else if 0 < a then PosInf else NegInf)"
| "js_mul (Fin a) NegInf = (if a = 0 then NaN else if 0 < a then NegInf else PosInf)"
| "js_mul PosInf PosInf = PosInf"
| "js_mul NegInf NegInf = PosInf"
| "js_mul PosInf NegInf = NegInf"
| "js_mul NegInf PosInf = NegInf"

definition to_number :: "jsnum option \<Rightarrow> jsnum" where
  "to_number v = (case v of None \<Rightarrow> NaN | Some n \<Rightarrow> n)"

definition digit_char :: "nat \<Rightarrow> char" where
  "digit_char d = ''0123456789'' ! (d mod 10)"

fun nat_digits :: "nat \<Rightarrow> string" where
  "nat_digits n = (if n < 10 then [digit_char n] else nat_digits (n div 10) @ [digit_char n])"

text \<open>
  \<open>x.toFixed(2)\<close>: the integer \<open>n\<close> with \<open>n / 100\<close> nearest to the magnitude of \<open>x\<close>
  (the larger one on a tie; \<open>x\<close> is the exact value of the double), written with two
  fraction digits, behind a minus sign for negative \<open>x\<close>; the non-finite values print
  by name. From \<open>10^21\<close> on the language prints in exponent notation, which depends
  on the binary representation; quantities of that size do not arise from heap
  statistics and are written by the same rule here.
\<close>

fun toFixed2 :: "jsnum \<Rightarrow> string" where
  "toFixed2 NaN = ''NaN''"
| "toFixed2 PosInf = ''Infinity''"
| "toFixed2 NegInf = ''-Infinity''"
| "toFixed2 (Fin x) =
     (let n = nat \<lfloor>\<bar>x\<bar> * 100 + 1 / 2\<rfloor>
      in (if x < 0 then ''-'' else [])
         @ nat_digits (n div 100) @ ''.'' @ [digit_char (n div 10), digit_char n])"

definition digit_val :: "char \<Rightarrow> nat option" where
  "digit_val c = map_of
     [(CHR ''0'', 0), (CHR ''1'', 1), (CHR ''2'', 2), (CHR ''3'', 3), (CHR ''4'', 4),
      (CHR ''5'', 5), (CHR ''6'', 6), (CHR ''7'', 7), (CHR ''8'', 8), (CHR ''9'', 9)] c"

definition is_digit :: "char \<Rightarrow> bool" where
  "is_digit c = (digit_val c \<noteq> None)"

definition digits_value :: "string \<Rightarrow> nat" where
  "digits_value ds =
     foldl (\<lambda>acc c. 10 * acc + (case digit_val c of None \<Rightarrow> 0 | Some d \<Rightarrow> d)) 0 ds"

text \<open>
  \<open>parseFloat(s)\<close> on the strings \<open>toFixed\<close> produces: an optional sign, then
  \<open>Infinity\<close> or decimal digits with an optional fraction; anything else is \<open>NaN\<close>.
  The result is the double nearest to the decimal value. Leading blanks and exponent
  parts, which \<open>toFixed2\<close> never writes, are not parsed.
\<close>

definition parseFloat :: "string \<Rightarrow> jsnum" where
  "parseFloat s =
     (let neg = (take 1 s = ''-'');
          r = (if take 1 s = ''-'' \<or> take 1 s = ''+'' then drop 1 s else s);
          ip = takeWhile is_digit r;
          r1 = dropWhile is_digit r;
          fp = (if take 1 r1 = ''.'' then takeWhile is_digit (drop 1 r1) else [])
      in if take 8 r = ''Infinity'' then (if neg then NegInf else PosInf)
         else if ip = [] \<and> fp = [] then NaN
         else let v = of_nat (digits_value ip) + of_nat (digits_value fp) / 10 ^ length fp
              in round64 (if neg then - v else v))"

section \<open>The environment of the metric components\<close>

text \<open>
  Modelled from the spec: the service locator, the metric service and the runtime-stats
  service (\<open>serviceManager\<close>, \<open>services/metrics\<close>, \<open>services/runtimeStats\<close>) are not
  among the sources. The spec has a lookup of a shared provider by name that may find
  nothing, a registry of metric definitions in which registering an id again replaces
  the binding, and a runtime-stats feed with \<open>on('data', handler)\<close> and
  \<open>removeListener\<close>. There is one service object of each kind; \<open>services\<close> holds the
  names the locator currently finds.
\<close>

datatype metric_type = TMetric | THistogram

datatype measurement = Mean

datatype handler_kind = P50 | P95

record metric_def =
  m_name :: string
  m_id :: string
  m_type :: metric_type
  m_unit :: "string option"
  m_historic :: "bool option"
  m_measurement :: "measurement option"
  m_handler :: "handler_kind option"

record timer_rec =
  t_interval :: nat
  t_active :: bool
  t_ref :: bool

record world =
  services :: "string set"
  v8_getHeapStatistics :: bool
  registry :: "metric_def list"
  timers :: "timer_rec list"
  listeners :: "nat list"
  closures :: "(histogram \<times> histogram) list"
  histogram_capacity :: nat
  histogram_policy :: "nat \<Rightarrow> nat option"
  debug_log :: "(string \<times> string) list"
  console_error :: "string list"
  exited :: "int option"

definition sm_get :: "world \<Rightarrow> string \<Rightarrow> bool" where
  "sm_get w name = (name \<in> services w)"

definition sm_set :: "string \<Rightarrow> world \<Rightarrow> world" where
  "sm_set name w = w\<lparr>services := insert name (services w)\<rparr>"

definition sm_reset :: "string \<Rightarrow> world \<Rightarrow> world" where
  "sm_reset name w = w\<lparr>services := services w - {name}\<rparr>"

definition registerMetric :: "metric_def \<Rightarrow> world \<Rightarrow> world" where
  "registerMetric d w =
     w\<lparr>registry := filter (\<lambda>e. m_id e \<noteq> m_id d) (registry w) @ [d]\<rparr>"

text \<open>The debug logger of a component: a message under the component's namespace.\<close>

definition logger :: "string \<Rightarrow> string \<Rightarrow> world \<Rightarrow> world" where
  "logger ns msg w = w\<lparr>debug_log := debug_log w @ [(ns, msg)]\<rparr>"

text \<open>
  The timers of the runtime: \<open>setInterval\<close> returns the handle of a new, active timer
  that holds the event loop open; \<open>unref\<close> releases that hold; \<open>clearInterval\<close>
  stops the timer and is harmless on a stopped one.
\<close>

definition setInterval :: "nat \<Rightarrow> world \<Rightarrow> nat \<times> world" where
  "setInterval ms w =
     (length (timers w),
      w\<lparr>timers := timers w @ [\<lparr>t_interval = ms, t_active = True, t_ref = True\<rparr>]\<rparr>)"

definition unref :: "nat \<Rightarrow> world \<Rightarrow> world" where
  "unref t w =
     (if t < length (timers w)
      then w\<lparr>timers := (timers w)[t := (timers w ! t)\<lparr>t_ref := False\<rparr>]\<rparr>
      else w)"

definition clearInterval :: "nat \<Rightarrow> world \<Rightarrow> world" where
  "clearInterval t w =
     (if t < length (timers w)
      then w\<lparr>timers := (timers w)[t := (timers w ! t)\<lparr>t_active := False\<rparr>]\<rparr>
      else w)"

definition active_timers :: "world \<Rightarrow> nat list" where
  "active_timers w = filter (\<lambda>t. t_active (timers w ! t)) [0..<length (timers w)]"

text \<open>The timers that keep the process alive: active and not unref'd.\<close>

definition holding_timers :: "world \<Rightarrow> nat list" where
  "holding_timers w =
     filter (\<lambda>t. t_active (timers w ! t) \<and> t_ref (timers w ! t)) [0..<length (timers w)]"

text \<open>
  The event emitter of the runtime-stats service: \<open>on\<close> appends the listener;
  \<open>removeListener\<close> takes the most recently added instance of the listener off, does
  nothing when it is not attached, and throws a TypeError when handed \<open>undefined\<close>.
\<close>

definition on_data :: "nat \<Rightarrow> world \<Rightarrow> world" where
  "on_data h w = w\<lparr>listeners := listeners w @ [h]\<rparr>"

definition remove_last :: "nat \<Rightarrow> nat list \<Rightarrow> nat list" where
  "remove_last h ls = rev (remove1 h (rev ls))"

definition removeListener :: "nat option \<Rightarrow> world \<Rightarrow> js_error + world" where
  "removeListener h w =
     (case h of
        None \<Rightarrow> Inl TypeError
      | Some l \<Rightarrow> Inr (w\<lparr>listeners := remove_last l (listeners w)\<rparr>))"

text \<open>How \<open>init\<close> is called: without argument, with a boolean, or with options.\<close>

datatype 'c config_arg = Omitted | Flag bool | Options 'c

text \<open>\<open>config === false\<close>.\<close>

fun is_false :: "'c config_arg \<Rightarrow> bool" where
  "is_false (Flag b) = (\<not> b)"
| "is_false arg = False"

section \<open>V8Metric\<close>

text \<open>
  Modelled from the spec: \<open>utils/metrics/gauge\<close> is not among the sources. A gauge holds
  the last value written, or nothing before the first \<open>set\<close>. The values written here
  are strings and numbers.
\<close>

datatype gval = GStr string | GNum jsnum

datatype gauge = Gauge (g_value: "gval option")

definition gauge_set :: "gval \<Rightarrow> gauge \<Rightarrow> gauge" where
  "gauge_set v g = Gauge (Some v)"

text \<open>
  Modelled from the spec: \<open>MetricService.metric\<close> registers the definition and hands
  back a gauge that has not been set.
\<close>

definition service_metric :: "metric_def \<Rightarrow> world \<Rightarrow> gauge \<times> world" where
  "service_metric d w = (Gauge None, registerMetric d w)"

text \<open>
  \<open>V8MetricsConfig extends Record<string, boolean>\<close>: a table from key to boolean that
  names eight flags and admits any further key.
\<close>

type_synonym v8_config = "string \<rightharpoonup> bool"

definition v8_defaultOptions :: v8_config where
  "v8_defaultOptions =
     [''new_space'' \<mapsto> False, ''old_space'' \<mapsto> False, ''map_space'' \<mapsto> False,
      ''code_space'' \<mapsto> False, ''large_object_space'' \<mapsto> False,
      ''heap_total_size'' \<mapsto> True, ''heap_used_size'' \<mapsto> True,
      ''heap_used_percent'' \<mapsto> True]"

record v8metric =
  v8_timer :: "nat option"
  v8_metricService :: bool
  v8_metricStore :: "string \<rightharpoonup> gauge"

definition v8_new :: v8metric where
  "v8_new = \<lparr>v8_timer = None, v8_metricService = False, v8_metricStore = Map.empty\<rparr>"

definition v8_TIME_INTERVAL :: nat where
  "v8_TIME_INTERVAL = 800"

definition v8_ns :: string where
  "v8_ns = ''axm:features:metrics:v8''"

definition unitKB :: string where
  "unitKB = ''MiB''"

definition v8_def :: "string \<Rightarrow> string \<Rightarrow> string \<Rightarrow> metric_def" where
  "v8_def name ident unit =
     \<lparr>m_name = name, m_id = ident, m_type = TMetric, m_unit = Some unit,
      m_historic = Some True, m_measurement = None, m_handler = None\<rparr>"

text \<open>\<open>metricsDefinitions\<close>, in the order \<open>for ... in\<close> visits its keys.\<close>

definition metricsDefinitions :: "(string \<times> metric_def) list" where
  "metricsDefinitions =
     [(''total_heap_size'', v8_def ''Heap Size'' ''internal/v8/heap/total'' unitKB),
      (''heap_used_percent'', v8_def ''Heap Usage'' ''internal/v8/heap/usage'' ''%''),
      (''used_heap_size'', v8_def ''Used Heap Size'' ''internal/v8/heap/used'' unitKB)]"

text \<open>
  The registration loop of \<open>init\<close>: a definition is skipped when \<open>config[metricName]\<close>
  is \<open>false\<close>; any other entry, an absent one too, registers the metric and stores its
  gauge.
\<close>

fun v8_register ::
  "v8_config \<Rightarrow> (string \<times> metric_def) list \<Rightarrow> v8metric \<times> world \<Rightarrow> v8metric \<times> world"
where
  "v8_register config [] mw = mw"
| "v8_register config ((metricName, metric) # defs) (m, w) =
     (if config metricName = Some False then v8_register config defs (m, w)
      else (let (g, w') = service_metric metric w
            in v8_register config defs
                 (m\<lparr>v8_metricStore := (v8_metricStore m)(metricName \<mapsto> g)\<rparr>, w')))"

definition v8_init :: "v8_config config_arg \<Rightarrow> v8metric \<times> world \<Rightarrow> v8metric \<times> world" where
  "v8_init arg mw =
     (case mw of (m, w) \<Rightarrow>
      if is_false arg then (m, w)
      else
        (let config = (case arg of Options c \<Rightarrow> c | _ \<Rightarrow> v8_defaultOptions);
             m1 = m\<lparr>v8_metricService := sm_get w ''metrics''\<rparr>
         in if \<not> v8_metricService m1
            then (m1, logger v8_ns ''Failed to load metric service'' w)
            else
              (let w1 = logger v8_ns ''init'' w
               in if \<not> v8_getHeapStatistics w1
                  then (m1, logger v8_ns ''V8.getHeapStatistics is not available, aborting'' w1)
                  else
                    (let (m2, w2) = v8_register config metricsDefinitions (m1, w1);
                         (t, w3) = setInterval v8_TIME_INTERVAL w2
                     in (m2\<lparr>v8_timer := Some t\<rparr>, unref t w3)))))"

definition v8_destroy :: "v8metric \<times> world \<Rightarrow> js_error + v8metric \<times> world" where
  "v8_destroy mw =
     (case mw of (m, w) \<Rightarrow>
      (let w1 = (case v8_timer m of None \<Rightarrow> w | Some t \<Rightarrow> clearInterval t w)
       in Inr (m, logger v8_ns ''destroy'' w1)))"

definition formatMiBytes :: "jsnum \<Rightarrow> string" where
  "formatMiBytes val = toFixed2 (js_div (js_div val (Fin 1024)) (Fin 1024))"

text \<open>
  The heap statistics the engine reports: number-valued fields by name. \<open>typeof\<close> of a
  field is \<open>number\<close> exactly when the field is there.
\<close>

type_synonym heap_stats = "string \<rightharpoonup> jsnum"

text \<open>The first loop of the timer callback.\<close>

fun v8_update :: "heap_stats \<Rightarrow> (string \<times> metric_def) list \<Rightarrow> v8metric \<Rightarrow> v8metric" where
  "v8_update stats [] m = m"
| "v8_update stats ((metricName, metric) # defs) m =
     (case stats metricName of
        None \<Rightarrow> v8_update stats defs m
      | Some val \<Rightarrow>
          (case v8_metricStore m metricName of
             None \<Rightarrow> v8_update stats defs m
           | Some gauge \<Rightarrow>
               v8_update stats defs
                 (m\<lparr>v8_metricStore :=
                      (v8_metricStore m)(metricName \<mapsto> gauge_set (GStr (formatMiBytes val)) gauge)\<rparr>)))"

text \<open>The timer callback, given what \<open>v8.getHeapStatistics()\<close> returns.\<close>

definition v8_tick :: "heap_stats \<Rightarrow> v8metric \<Rightarrow> v8metric" where
  "v8_tick stats m =
     (let m1 = v8_update stats metricsDefinitions m;
          usage = toFixed2 (js_mul (js_div (to_number (stats ''used_heap_size''))
                                           (to_number (stats ''total_heap_size''))) (Fin 100))
      in (case v8_metricStore m1 ''heap_used_percent'' of
            None \<Rightarrow> m1
          | Some usageMetric \<Rightarrow>
              m1\<lparr>v8_metricStore :=
                   (v8_metricStore m1)(''heap_used_percent'' \<mapsto>
                      gauge_set (GNum (parseFloat usage)) usageMetric)\<rparr>))"

text \<open>One round of the timers: every active timer runs the callback once.\<close>

definition v8_fire :: "heap_stats \<Rightarrow> v8metric \<times> world \<Rightarrow> v8metric \<times> world" where
  "v8_fire stats mw =
     (case mw of (m, w) \<Rightarrow> (foldl (\<lambda>m t. v8_tick stats m) m (active_timers w), w))"

text \<open>Calls on a V8Metric instance and changes of the locator, in sequence.\<close>

datatype v8_op =
    V8Init "v8_config config_arg"
  | V8Destroy
  | V8Provide string
  | V8Withdraw string

fun v8_exec :: "v8_op \<Rightarrow> v8metric \<times> world \<Rightarrow> js_error + v8metric \<times> world" where
  "v8_exec (V8Init arg) mw = Inr (v8_init arg mw)"
| "v8_exec V8Destroy mw = v8_destroy mw"
| "v8_exec (V8Provide name) (m, w) = Inr (m, sm_set name w)"
| "v8_exec (V8Withdraw name) (m, w) = Inr (m, sm_reset name w)"

fun v8_run :: "v8_op list \<Rightarrow> v8metric \<times> world \<Rightarrow> js_error + v8metric \<times> world" where
  "v8_run [] mw = Inr mw"
| "v8_run (x # xs) mw = (case v8_exec x mw of Inl e \<Rightarrow> Inl e | Inr mw' \<Rightarrow> v8_run xs mw')"

section \<open>RuntimeMetrics\<close>

record runtime_metrics_options =
  gcOldPause :: bool
  gcNewPause :: bool
  pageFaults :: bool
  contextSwitchs :: bool

definition rm_defaultOptions :: runtime_metrics_options where
  "rm_defaultOptions =
     \<lparr>gcOldPause = True, gcNewPause = True, pageFaults = True, contextSwitchs = True\<rparr>"

record runtime_metrics =
  rm_metricService :: bool
  rm_runtimeStatsService :: bool
  rm_handle_ref :: "nat option"
  rm_metrics :: "string \<rightharpoonup> histogram"

definition rm_new :: runtime_metrics where
  "rm_new = \<lparr>rm_metricService = False, rm_runtimeStatsService = False,
             rm_handle_ref = None, rm_metrics = Map.empty\<rparr>"

definition rm_ns :: string where
  "rm_ns = ''axm:features:metrics:runtime''"

text \<open>\<open>new Histogram()\<close>, with the window of the environment.\<close>

definition fresh_histogram :: "world \<Rightarrow> histogram" where
  "fresh_histogram w = new_histogram (histogram_capacity w) (histogram_policy w)"

text \<open>
  Modelled from the spec: \<open>MetricService.histogram\<close> registers a histogram metric and
  hands back its new histogram.
\<close>

definition service_histogram :: "string \<Rightarrow> string \<Rightarrow> world \<Rightarrow> histogram \<times> world" where
  "service_histogram name ident w =
     (fresh_histogram w,
      registerMetric \<lparr>m_name = name, m_id = ident, m_type = THistogram, m_unit = None,
                      m_historic = None, m_measurement = Some Mean, m_handler = None\<rparr> w)"

definition pause_def :: "string \<Rightarrow> string \<Rightarrow> handler_kind \<Rightarrow> metric_def" where
  "pause_def name ident h =
     \<lparr>m_name = name, m_id = ident, m_type = THistogram, m_unit = Some ''ms'',
      m_historic = Some True, m_measurement = None, m_handler = Some h\<rparr>"

text \<open>The four blocks of \<open>init\<close> that register metrics.\<close>

definition rm_register_new :: "runtime_metrics_options \<Rightarrow> world \<Rightarrow> world" where
  "rm_register_new config w =
     (if gcNewPause config
      then registerMetric (pause_def ''GC New Space Pause p95'' ''internal/v8/gc/new/pause/p95'' P95)
             (registerMetric (pause_def ''GC New Space Pause'' ''internal/v8/gc/new/pause/p50'' P50) w)
      else w)"

definition rm_register_old :: "runtime_metrics_options \<Rightarrow> world \<Rightarrow> world" where
  "rm_register_old config w =
     (if gcOldPause config
      then registerMetric (pause_def ''GC Old Space Pause p95'' ''internal/v8/gc/old/pause/p95'' P95)
             (registerMetric (pause_def ''GC Old Space Pause'' ''internal/v8/gc/old/pause/p50'' P50) w)
      else w)"

definition rm_register_switchs ::
  "runtime_metrics_options \<Rightarrow> runtime_metrics \<times> world \<Rightarrow> runtime_metrics \<times> world" where
  "rm_register_switchs config mw =
     (case mw of (m, w) \<Rightarrow>
      if contextSwitchs config
      then (let (volontarySwitchs, w1) =
                  service_histogram ''Volontary CPU Context Switch''
                    ''internal/uv/cpu/contextswitch/volontary'' w;
                (inVolontarySwitchs, w2) =
                  service_histogram ''Involuntary CPU Context Switch''
                    ''internal/uv/cpu/contextswitch/involontary'' w1
            in (m\<lparr>rm_metrics := (rm_metrics m)(''inVolontarySwitchs'' \<mapsto> inVolontarySwitchs,
                                                 ''volontarySwitchs'' \<mapsto> volontarySwitchs)\<rparr>, w2))
      else (m, w))"

definition rm_register_faults ::
  "runtime_metrics_options \<Rightarrow> runtime_metrics \<times> world \<Rightarrow> runtime_metrics \<times> world" where
  "rm_register_faults config mw =
     (case mw of (m, w) \<Rightarrow>
      if pageFaults config
      then (let (softPageFault, w1) =
                  service_histogram ''Minor Page Fault'' ''internal/uv/memory/pagefault/minor'' w;
                (hardPageFault, w2) =
                  service_histogram ''Major Page Fault'' ''internal/uv/memory/pagefault/major'' w1
            in (m\<lparr>rm_metrics := (rm_metrics m)(''softPageFault'' \<mapsto> softPageFault,
                                                 ''hardPageFault'' \<mapsto> hardPageFault)\<rparr>, w2))
      else (m, w))"

text \<open>
  \<open>init\<close>. The handler is a closure over the two histograms made by this call; it is
  entered into \<open>closures\<close> and known by its index there.
\<close>

definition rm_init ::
  "runtime_metrics_options config_arg \<Rightarrow> runtime_metrics \<times> world \<Rightarrow> runtime_metrics \<times> world"
where
  "rm_init arg mw =
     (case mw of (m, w) \<Rightarrow>
      if is_false arg then (m, w)
      else
        (let config = (case arg of Options c \<Rightarrow> c | _ \<Rightarrow> rm_defaultOptions);
             m1 = m\<lparr>rm_metricService := sm_get w ''metrics''\<rparr>
         in if \<not> rm_metricService m1
            then (m1, logger rm_ns ''Failed to load metric service'' w)
            else
              (let m2 = m1\<lparr>rm_runtimeStatsService := sm_get w ''runtimeStats''\<rparr>
               in if \<not> rm_runtimeStatsService m2
                  then (m2, logger rm_ns ''Failed to load runtime stats service'' w)
                  else
                    (let w1 = logger rm_ns ''init'' w;
                         newHistogram = fresh_histogram w1;
                         w2 = rm_register_new config w1;
                         oldHistogram = fresh_histogram w2;
                         w3 = rm_register_old config w2;
                         (m3, w4) = rm_register_switchs config (m2, w3);
                         (m4, w5) = rm_register_faults config (m3, w4);
                         h = length (closures w5);
                         w6 = w5\<lparr>closures := closures w5 @ [(newHistogram, oldHistogram)]\<rparr>
                     in (m4\<lparr>rm_handle_ref := Some h\<rparr>, on_data h w6)))))"

definition rm_destroy :: "runtime_metrics \<times> world \<Rightarrow> js_error + runtime_metrics \<times> world" where
  "rm_destroy mw =
     (case mw of (m, w) \<Rightarrow>
      if rm_runtimeStatsService m
      then (case removeListener (rm_handle_ref m) w of
              Inl e \<Rightarrow> Inl e
            | Inr w1 \<Rightarrow> Inr (m, logger rm_ns ''destroy'' w1))
      else Inr (m, logger rm_ns ''destroy'' w))"

text \<open>
  What the handler reads and writes: the two histograms of its closure, the component's
  \<open>metrics\<close> table, and the debug log it could write to.
\<close>

record handler_env =
  newHistogram :: histogram
  oldHistogram :: histogram
  metrics :: "string \<rightharpoonup> histogram"
  hlog :: "(string \<times> string) list"

datatype 'a outcome = Returned 'a | Thrown js_error 'a

text \<open>\<open>const x = this.metrics.get(key); if (x !== undefined) x.update(stats.usage.field)\<close>.\<close>

definition update_usage :: "string \<Rightarrow> string \<Rightarrow> jsval \<Rightarrow> handler_env \<Rightarrow> handler_env outcome" where
  "update_usage key field usage e =
     (case metrics e key of
        None \<Rightarrow> Returned e
      | Some hist \<Rightarrow>
          (case get_prop usage field of
             Inl err \<Rightarrow> Thrown err e
           | Inr v \<Rightarrow> Returned (e\<lparr>metrics := (metrics e)(key \<mapsto> update v hist)\<rparr>)))"

definition and_then :: "'a outcome \<Rightarrow> ('a \<Rightarrow> 'a outcome) \<Rightarrow> 'a outcome" where
  "and_then r f = (case r of Returned e \<Rightarrow> f e | Thrown err e \<Rightarrow> Thrown err e)"

text \<open>The handler \<open>this.handle\<close>. A throw keeps the updates made before it.\<close>

definition handle :: "jsval \<Rightarrow> handler_env \<Rightarrow> handler_env outcome" where
  "handle stats e =
     (if typeof stats \<noteq> ''object'' then Returned e
      else
        (case get_prop stats ''gc'' of
           Inl err \<Rightarrow> Thrown err e
         | Inr gc \<Rightarrow>
             if typeof gc \<noteq> ''object'' then Returned e
             else
               (case get_prop gc ''newPause'' of
                  Inl err \<Rightarrow> Thrown err e
                | Inr newPause \<Rightarrow>
                    (let e1 = e\<lparr>newHistogram := update newPause (newHistogram e)\<rparr>
                     in case get_prop gc ''oldPause'' of
                          Inl err \<Rightarrow> Thrown err e1
                        | Inr oldPause \<Rightarrow>
                            (let e2 = e1\<lparr>oldHistogram := update oldPause (oldHistogram e1)\<rparr>
                             in case get_prop stats ''usage'' of
                                  Inl err \<Rightarrow> Thrown err e2
                                | Inr usage \<Rightarrow>
                                    if typeof usage \<noteq> ''object'' then Returned e2
                                    else
                                      and_then (and_then (and_then
                                        (update_usage ''volontarySwitchs'' ''ru_nvcsw'' usage e2)
                                        (update_usage ''inVolontarySwitchs'' ''ru_nivcsw'' usage))
                                        (update_usage ''softPageFault'' ''ru_minflt'' usage))
                                        (update_usage ''hardPageFault'' ''ru_majflt'' usage))))))"

text \<open>
  The runtime-stats service emits \<open>data\<close>: the attached listeners run in the order they
  were added, each on its own pair of histograms and on the component's table; a throw
  ends the round.
\<close>

fun rm_emit ::
  "jsval \<Rightarrow> nat list \<Rightarrow> runtime_metrics \<times> world \<Rightarrow> (runtime_metrics \<times> world) outcome" where
  "rm_emit stats [] mw = Returned mw"
| "rm_emit stats (l # ls) (m, w) =
     (if l < length (closures w)
      then
        (let e = \<lparr>newHistogram = fst (closures w ! l), oldHistogram = snd (closures w ! l),
                  metrics = rm_metrics m, hlog = debug_log w\<rparr>;
             store = (\<lambda>e'. (m\<lparr>rm_metrics := metrics e'\<rparr>,
                             w\<lparr>closures := (closures w)[l := (newHistogram e', oldHistogram e')],
                               debug_log := hlog e'\<rparr>))
         in case handle stats e of
              Returned e' \<Rightarrow> rm_emit stats ls (store e')
            | Thrown err e' \<Rightarrow> Thrown err (store e'))
      else rm_emit stats ls (m, w))"

definition rm_data :: "jsval \<Rightarrow> runtime_metrics \<times> world \<Rightarrow> (runtime_metrics \<times> world) outcome" where
  "rm_data stats mw = rm_emit stats (listeners (snd mw)) mw"

text \<open>Calls on a RuntimeMetrics instance and changes of the locator, in sequence.\<close>

datatype rm_op =
    RmInit "runtime_metrics_options config_arg"
  | RmDestroy
  | RmProvide string
  | RmWithdraw string

fun rm_exec :: "rm_op \<Rightarrow> runtime_metrics \<times> world \<Rightarrow> js_error + runtime_metrics \<times> world" where
  "rm_exec (RmInit arg) mw = Inr (rm_init arg mw)"
| "rm_exec RmDestroy mw = rm_destroy mw"
| "rm_exec (RmProvide name) (m, w) = Inr (m, sm_set name w)"
| "rm_exec (RmWithdraw name) (m, w) = Inr (m, sm_reset name w)"

fun rm_run :: "rm_op list \<Rightarrow> runtime_metrics \<times> world \<Rightarrow> js_error + runtime_metrics \<times> world" where
  "rm_run [] mw = Inr mw"
| "rm_run (x # xs) mw = (case rm_exec x mw of Inl e \<Rightarrow> Inl e | Inr mw' \<Rightarrow> rm_run xs mw')"

section \<open>Transport\<close>

record transport_config =
  serverName :: "string option"
  sendLogs :: "bool option"
  logFilter :: "string option"
  proxy :: "string option"

text \<open>
  Modelled from the spec: the source declares the interface \<open>Transport\<close> only; the
  implementation \<open>transports/IPCTransport\<close> is not among the sources. The spec gives the
  channel a connection state, a bounded outbound queue and ordered delivery: \<open>send\<close>
  delivers on a connected channel and buffers otherwise; a full queue gives up its oldest
  entry for the new one; reaching \<open>connected\<close> drains the queue in submission order;
  \<open>destroy\<close> discards the queue and closes. \<open>ch_wire\<close> is what has been delivered to the
  remote side, oldest first.
\<close>

datatype conn_state = Disconnected | Connecting | Connected | Closing

type_synonym message = "string \<times> jsval"

record channel =
  ch_state :: conn_state
  ch_capacity :: nat
  ch_queue :: "message list"
  ch_wire :: "message list"
  ch_config :: "transport_config option"

definition new_channel :: "nat \<Rightarrow> channel" where
  "new_channel cap =
     \<lparr>ch_state = Disconnected, ch_capacity = cap, ch_queue = [], ch_wire = [],
      ch_config = None\<rparr>"

definition enqueue :: "nat \<Rightarrow> message \<Rightarrow> message list \<Rightarrow> message list" where
  "enqueue cap msg q = (let q' = q @ [msg] in drop (length q' - cap) q')"

definition send :: "string \<Rightarrow> jsval \<Rightarrow> channel \<Rightarrow> channel" where
  "send topic payload c =
     (case ch_state c of
        Connected \<Rightarrow> c\<lparr>ch_wire := ch_wire c @ [(topic, payload)]\<rparr>
      | Closing \<Rightarrow> c
      | _ \<Rightarrow> c\<lparr>ch_queue := enqueue (ch_capacity c) (topic, payload) (ch_queue c)\<rparr>)"

definition channel_init :: "transport_config \<Rightarrow> channel \<Rightarrow> channel" where
  "channel_init config c =
     (if ch_state c = Disconnected
      then c\<lparr>ch_config := Some config, ch_state := Connecting\<rparr>
      else c)"

definition reconnect :: "channel \<Rightarrow> channel" where
  "reconnect c = (if ch_state c = Disconnected then c\<lparr>ch_state := Connecting\<rparr> else c)"

definition connected :: "channel \<Rightarrow> channel" where
  "connected c =
     (if ch_state c = Connecting
      then c\<lparr>ch_state := Connected, ch_wire := ch_wire c @ ch_queue c, ch_queue := []\<rparr>
      else c)"

definition connection_lost :: "channel \<Rightarrow> channel" where
  "connection_lost c =
     (if ch_state c = Connected \<or> ch_state c = Connecting
      then c\<lparr>ch_state := Disconnected\<rparr>
      else c)"

definition channel_destroy :: "channel \<Rightarrow> channel" where
  "channel_destroy c = c\<lparr>ch_state := Closing, ch_queue := []\<rparr>"

definition send_all :: "message list \<Rightarrow> channel \<Rightarrow> channel" where
  "send_all msgs c = foldl (\<lambda>c msg. send (fst msg) (snd msg) c) c msgs"

text \<open>
  \<open>createTransport\<close>. The new \<open>IPCTransport\<close> is a parameter. For a name without
  implementation the function writes to the error console and ends the process with
  \<open>process.exit(1)\<close>; nothing is returned then.
\<close>

definition createTransport ::
  "channel \<Rightarrow> string \<Rightarrow> transport_config \<Rightarrow> world \<Rightarrow> channel option \<times> world" where
  "createTransport ipc name config w =
     (if name = ''ipc''
      then (let transport = channel_init config ipc in (Some transport, w))
      else (None,
            w\<lparr>console_error :=
                 console_error w @ [''Failed to find transport implementation: '' @ name],
              exited := Some 1\<rparr>))"

section \<open>Initial states\<close>

definition world0 :: world where
  "world0 =
     \<lparr>services = {}, v8_getHeapStatistics = True, registry = [], timers = [],
      listeners = [], closures = [], histogram_capacity = 4,
      histogram_policy = (\<lambda>n. Some n), debug_log = [], console_error = [],
      exited = None\<rparr>"

definition world1 :: world where
  "world1 = world0\<lparr>services := {''metrics'', ''runtimeStats''}\<rparr>"

definition cfg0 :: transport_config where
  "cfg0 = \<lparr>serverName = None, sendLogs = None, logFilter = None, proxy = None\<rparr>"

text \<open>
  A call leaves the component inert when it registers no metric, starts no timer and
  attaches no listener.
\<close>

definition inert :: "world \<Rightarrow> world \<Rightarrow> bool" where
  "inert w w' =
     (registry w' = registry w \<and> timers w' = timers w \<and> listeners w' = listeners w
      \<and> closures w' = closures w)"

text \<open>The keys of \<open>metricsDefinitions\<close>, the ids registered, and the id behind a key.\<close>

definition v8_keys :: "string list" where
  "v8_keys = map fst metricsDefinitions"

definition metric_ids :: "world \<Rightarrow> string set" where
  "metric_ids w = m_id ` set (registry w)"

definition v8_id :: "string \<Rightarrow> string" where
  "v8_id k = (case map_of metricsDefinitions k of None \<Rightarrow> [] | Some d \<Rightarrow> m_id d)"

text \<open>
  Two configurations: the defaults with the declared flags \<open>heap_total_size\<close> and
  \<open>heap_used_size\<close> switched off, and the defaults with \<open>heap_total_size\<close> and the
  undeclared key \<open>total_heap_size\<close> switched off.
\<close>

definition cfg_flags_off :: v8_config where
  "cfg_flags_off =
     v8_defaultOptions(''heap_total_size'' \<mapsto> False, ''heap_used_size'' \<mapsto> False)"

definition cfg_heap_off :: v8_config where
  "cfg_heap_off =
     v8_defaultOptions(''heap_total_size'' \<mapsto> False, ''total_heap_size'' \<mapsto> False)"

definition heap_size_keys :: "string set" where
  "heap_size_keys = {''total_heap_size'', ''used_heap_size''}"

text \<open>A heap of 100 MiB with 50 MiB in use.\<close>

definition stats0 :: heap_stats where
  "stats0 = [''total_heap_size'' \<mapsto> Fin 104857600, ''used_heap_size'' \<mapsto> Fin 52428800]"

text \<open>A heap of 160 MiB with 23 MiB in use.\<close>

definition stats1 :: heap_stats where
  "stats1 = [''total_heap_size'' \<mapsto> Fin 167772160, ''used_heap_size'' \<mapsto> Fin 24117248]"

text \<open>A V8Metric after \<open>init()\<close>, with both services present.\<close>

definition v8_started :: "v8metric \<times> world" where
  "v8_started = v8_init Omitted (v8_new, world1)"

text \<open>
  What holds of a RuntimeMetrics instance between calls: without a handler the
  runtime-stats service field is undefined.
\<close>

definition rm_inv :: "runtime_metrics \<Rightarrow> bool" where
  "rm_inv m = (rm_handle_ref m = None \<longrightarrow> \<not> rm_runtimeStatsService m)"

text \<open>A handler environment with one of the four usage histograms registered.\<close>

definition env0 :: handler_env where
  "env0 = \<lparr>newHistogram = new_histogram 4 (\<lambda>n. Some n),
           oldHistogram = new_histogram 4 (\<lambda>n. Some n),
           metrics = [''volontarySwitchs'' \<mapsto> new_histogram 4 (\<lambda>n. Some n)],
           hlog = []\<rparr>"

text \<open>Three payloads on one topic.\<close>

definition msgs3 :: "message list" where
  "msgs3 =
     [(''metrics'', JNum (Fin 1)), (''metrics'', JNum (Fin 2)), (''metrics'', JNum (Fin 3))]"

text \<open>A datum of the runtime-stats feed with GC pauses and no \<open>usage\<close> field.\<close>

definition gc_datum :: jsval where
  "gc_datum =
     JObj [(''gc'', JObj [(''newPause'', JNum (Fin 5)), (''oldPause'', JNum (Fin 7))])]"

section \<open>Properties: a missing implementation or service\<close>

lemma is_false_iff: "is_false arg = (arg = Flag False)"
  by (cases arg) auto

lemma v8_init_false: "v8_init (Flag False) mw = mw"
  by (simp add: v8_init_def split: prod.splits)

lemma rm_init_false: "rm_init (Flag False) mw = mw"
  by (simp add: rm_init_def split: prod.splits)

lemma v8_init_no_service:
  "arg \<noteq> Flag False \<Longrightarrow> \<not> sm_get w ''metrics'' \<Longrightarrow>
   v8_init arg (m, w) =
     (m\<lparr>v8_metricService := False\<rparr>, logger v8_ns ''Failed to load metric service'' w)"
  by (simp add: v8_init_def Let_def is_false_iff)

lemma rm_init_no_metrics:
  "arg \<noteq> Flag False \<Longrightarrow> \<not> sm_get w ''metrics'' \<Longrightarrow>
   rm_init arg (m, w) =
     (m\<lparr>rm_metricService := False\<rparr>, logger rm_ns ''Failed to load metric service'' w)"
  by (simp add: rm_init_def Let_def is_false_iff)

lemma rm_init_no_stats:
  "arg \<noteq> Flag False \<Longrightarrow> sm_get w ''metrics'' \<Longrightarrow> \<not> sm_get w ''runtimeStats'' \<Longrightarrow>
   rm_init arg (m, w) =
     (m\<lparr>rm_metricService := True, rm_runtimeStatsService := False\<rparr>,
      logger rm_ns ''Failed to load runtime stats service'' w)"
  by (simp add: rm_init_def Let_def is_false_iff)

text \<open>
  C1, as stated, fails: \<open>createTransport\<close> with the name \<open>tcp\<close> returns no transport and
  ends the process with exit code 1.
\<close>

theorem createTransport_unknown_name_exits:
  "fst (createTransport (new_channel 8) ''tcp'' cfg0 world0) = None
   \<and> exited (snd (createTransport (new_channel 8) ''tcp'' cfg0 world0)) = Some 1"
  by (simp add: createTransport_def)

text \<open>
  C1, amended: \<open>createTransport\<close> with the name \<open>ipc\<close> returns the initialised IPC
  transport and leaves the process as it is; with every other name it returns nothing,
  writes \<open>Failed to find transport implementation: <name>\<close> to the error console and
  ends the process with exit code 1. Where \<open>init\<close> of V8Metric or RuntimeMetrics (called
  with anything but \<open>false\<close>) cannot locate the metric service, or RuntimeMetrics the
  runtime-stats service, the call logs its diagnostic and the process is not ended.
\<close>

theorem createTransport_outcome:
  "(name = ''ipc'' \<longrightarrow>
      createTransport ipc name config w = (Some (channel_init config ipc), w))
   \<and> (name \<noteq> ''ipc'' \<longrightarrow>
      fst (createTransport ipc name config w) = None
      \<and> exited (snd (createTransport ipc name config w)) = Some 1
      \<and> console_error (snd (createTransport ipc name config w)) =
          console_error w @ [''Failed to find transport implementation: '' @ name])
   \<and> (varg \<noteq> Flag False \<and> \<not> sm_get w ''metrics'' \<longrightarrow>
      exited (snd (v8_init varg (vm, w))) = exited w
      \<and> debug_log (snd (v8_init varg (vm, w))) =
          debug_log w @ [(v8_ns, ''Failed to load metric service'')])
   \<and> (rarg \<noteq> Flag False \<and> \<not> sm_get w ''metrics'' \<longrightarrow>
      exited (snd (rm_init rarg (rm, w))) = exited w
      \<and> debug_log (snd (rm_init rarg (rm, w))) =
          debug_log w @ [(rm_ns, ''Failed to load metric service'')])
   \<and> (rarg \<noteq> Flag False \<and> sm_get w ''metrics'' \<and> \<not> sm_get w ''runtimeStats'' \<longrightarrow>
      exited (snd (rm_init rarg (rm, w))) = exited w
      \<and> debug_log (snd (rm_init rarg (rm, w))) =
          debug_log w @ [(rm_ns, ''Failed to load runtime stats service'')])"
  by (simp add: createTransport_def v8_init_no_service rm_init_no_metrics rm_init_no_stats
        logger_def)

text \<open>
  C1, amended, at concrete inputs: the names \<open>ipc\<close> and \<open>tcp\<close>, and \<open>init\<close> without
  argument where no service, or only the metric service, can be located.
\<close>

theorem createTransport_outcome_witness:
  "createTransport (new_channel 8) ''ipc'' cfg0 world0 =
     (Some (channel_init cfg0 (new_channel 8)), world0)
   \<and> exited (snd (createTransport (new_channel 8) ''tcp'' cfg0 world0)) = Some 1
   \<and> debug_log (snd (v8_init Omitted (v8_new, world0))) =
        [(v8_ns, ''Failed to load metric service'')]
   \<and> debug_log (snd (rm_init Omitted (rm_new, world0))) =
        [(rm_ns, ''Failed to load metric service'')]
   \<and> debug_log (snd (rm_init Omitted (rm_new, sm_set ''metrics'' world0))) =
        [(rm_ns, ''Failed to load runtime stats service'')]"
  using createTransport_outcome
          [of "''ipc''" "new_channel 8" cfg0 world0 Omitted v8_new Omitted rm_new]
        createTransport_outcome
          [of "''tcp''" "new_channel 8" cfg0 world0 Omitted v8_new Omitted rm_new]
        createTransport_outcome
          [of "''tcp''" "new_channel 8" cfg0 "sm_set ''metrics'' world0" Omitted v8_new
              Omitted rm_new]
  by (simp add: sm_get_def sm_set_def world0_def)

text \<open>
  C4, as stated, fails for the configuration \<open>false\<close>: with no metric service to be
  located, \<open>init(false)\<close> of either component returns without logging anything.
\<close>

theorem init_false_logs_nothing:
  "\<not> sm_get world0 ''metrics''
   \<and> debug_log (snd (v8_init (Flag False) (v8_new, world0))) = debug_log world0
   \<and> debug_log (snd (rm_init (Flag False) (rm_new, world0))) = debug_log world0"
  by (simp add: v8_init_false rm_init_false sm_get_def world0_def)

text \<open>
  C4, amended: for every configuration other than \<open>false\<close>, if the metric service (or,
  for RuntimeMetrics, the runtime-stats service) cannot be located at init time, \<open>init\<close>
  logs a diagnostic and returns; and for every configuration, \<open>false\<close> included, it
  then leaves the component inert: no metric is registered, no timer is started and no
  listener is attached.
\<close>

theorem init_without_service:
  "(varg \<noteq> Flag False \<and> \<not> sm_get w ''metrics'' \<longrightarrow>
      debug_log (snd (v8_init varg (vm, w))) =
        debug_log w @ [(v8_ns, ''Failed to load metric service'')])
   \<and> (\<not> sm_get w ''metrics'' \<longrightarrow>
      inert w (snd (v8_init varg (vm, w)))
      \<and> v8_timer (fst (v8_init varg (vm, w))) = v8_timer vm
      \<and> v8_metricStore (fst (v8_init varg (vm, w))) = v8_metricStore vm)
   \<and> (rarg \<noteq> Flag False \<and> \<not> sm_get w ''metrics'' \<longrightarrow>
      debug_log (snd (rm_init rarg (rm, w))) =
        debug_log w @ [(rm_ns, ''Failed to load metric service'')])
   \<and> (rarg \<noteq> Flag False \<and> sm_get w ''metrics'' \<and> \<not> sm_get w ''runtimeStats'' \<longrightarrow>
      debug_log (snd (rm_init rarg (rm, w))) =
        debug_log w @ [(rm_ns, ''Failed to load runtime stats service'')])
   \<and> (\<not> sm_get w ''metrics'' \<or> \<not> sm_get w ''runtimeStats'' \<longrightarrow>
      inert w (snd (rm_init rarg (rm, w)))
      \<and> rm_handle_ref (fst (rm_init rarg (rm, w))) = rm_handle_ref rm
      \<and> rm_metrics (fst (rm_init rarg (rm, w))) = rm_metrics rm)"
  apply (cases "varg = Flag False"; cases "rarg = Flag False"; cases "sm_get w ''metrics''")
  apply (simp_all add: v8_init_false rm_init_false v8_init_no_service rm_init_no_metrics
           rm_init_no_stats logger_def inert_def)
  done

text \<open>
  C4, amended, at concrete inputs: \<open>init\<close> without argument where no service can be
  located, and \<open>init(true)\<close> of RuntimeMetrics where only the metric service can.
\<close>

theorem init_without_service_witness:
  "debug_log (snd (v8_init Omitted (v8_new, world0))) =
     [(v8_ns, ''Failed to load metric service'')]
   \<and> inert world0 (snd (v8_init Omitted (v8_new, world0)))
   \<and> v8_timer (fst (v8_init Omitted (v8_new, world0))) = None
   \<and> debug_log (snd (rm_init (Flag True) (rm_new, world0))) =
        [(rm_ns, ''Failed to load metric service'')]
   \<and> debug_log (snd (rm_init (Flag True) (rm_new, sm_set ''metrics'' world0))) =
        [(rm_ns, ''Failed to load runtime stats service'')]
   \<and> inert (sm_set ''metrics'' world0)
        (snd (rm_init (Flag True) (rm_new, sm_set ''metrics'' world0)))
   \<and> rm_handle_ref (fst (rm_init (Flag True) (rm_new, sm_set ''metrics'' world0))) = None"
  using init_without_service [of Omitted world0 v8_new "Flag True" rm_new]
        init_without_service [of Omitted "sm_set ''metrics'' world0" v8_new "Flag True" rm_new]
  by (simp add: sm_get_def sm_set_def world0_def v8_new_def rm_new_def)

section \<open>Properties: rounding to binary64\<close>

lemma floor_rat_numeral:
  "\<lfloor>(numeral a :: rat) / numeral b\<rfloor> = numeral a div numeral b"
  using floor_divide_of_int_eq [of "numeral a" "numeral b", where ?'a = rat] by simp

lemma pow2_pos: "0 < pow2 e"
  by (simp add: pow2_def)

lemma pow2_Suc: "pow2 (e + 1) = 2 * pow2 e"
proof (cases "0 \<le> e")
  case True
  then show ?thesis by (simp add: pow2_def nat_add_distrib)
next
  case False
  then have "nat (- e) = Suc (nat (- (e + 1)))" by simp
  with False show ?thesis by (simp add: pow2_def)
qed

text \<open>
  \<open>bin_up\<close> and \<open>bin_down\<close> find the binade: for \<open>a \<ge> 1\<close> the exponent \<open>e\<close> with
  \<open>2^e \<le> a < 2^(e + 1)\<close>; for \<open>a < 1\<close> the same, or -1022 where \<open>a\<close> lies below.
\<close>

lemma bin_up_bounds:
  "1 \<le> a \<Longrightarrow> pow2 (bin_up a) \<le> a \<and> a < pow2 (bin_up a + 1)"
proof (induction a rule: bin_up.induct)
  case (1 a)
  show ?case
  proof (cases "2 \<le> a")
    case True
    with 1 have ih: "pow2 (bin_up (a / 2)) \<le> a / 2" "a / 2 < pow2 (bin_up (a / 2) + 1)"
      by simp_all
    from True have "bin_up a = bin_up (a / 2) + 1"
      by (subst bin_up.simps) simp
    then have "pow2 (bin_up a) = 2 * pow2 (bin_up (a / 2))"
      and "pow2 (bin_up a + 1) = 2 * pow2 (bin_up (a / 2) + 1)"
      by (simp_all only: pow2_Suc)
    with ih show ?thesis by simp
  next
    case False
    then have "bin_up a = 0" by (subst bin_up.simps) simp
    with False 1 show ?thesis
      by (simp add: pow2_def)
  qed
qed

lemma bin_down_bounds:
  "0 < a \<Longrightarrow> a < 2 \<Longrightarrow>
   a * pow2 e < pow2 (bin_down a e + 1)
   \<and> (pow2 (bin_down a e) \<le> a * pow2 e \<or> bin_down a e \<le> - 1022)"
proof (induction a e rule: bin_down.induct)
  case (1 a e)
  show ?case
  proof (cases "a < 1 \<and> - 1022 < e")
    case True
    then have step: "bin_down a e = bin_down (a * 2) (e - 1)"
      by (subst bin_down.simps) simp
    have "pow2 e = 2 * pow2 (e - 1)" using pow2_Suc [of "e - 1"] by simp
    then have eq: "a * pow2 e = a * 2 * pow2 (e - 1)" by simp
    from True "1.prems" have "0 < a * 2" "a * 2 < 2" by simp_all
    from "1.IH" [OF True this] show ?thesis unfolding step eq .
  next
    case False
    then have stop: "bin_down a e = e"
      by (subst bin_down.simps) auto
    from False consider "1 \<le> a" | "e \<le> - 1022" by fastforce
    then show ?thesis
    proof cases
      case 1
      with \<open>a < 2\<close> pow2_pos [of e] show ?thesis
        unfolding stop by (simp add: pow2_Suc mult.commute [of a])
    next
      case 2
      with \<open>a < 2\<close> pow2_pos [of e] show ?thesis
        unfolding stop by (simp add: pow2_Suc mult.commute [of a])
    qed
  qed
qed

text \<open>
  Rounding moves a number by at most half the spacing of its binade.
\<close>

lemma round_half_even_near: "\<bar>of_int (round_half_even t) - t\<bar> \<le> 1 / 2"
proof -
  have "of_int \<lfloor>t\<rfloor> \<le> t" "t < of_int \<lfloor>t\<rfloor> + 1" by linarith+
  then show ?thesis
    by (auto simp: round_half_even_def Let_def abs_le_iff)
qed

lemma round64_near:
  assumes "round64 x = Fin r"
  shows "\<bar>r - x\<bar> \<le> pow2 (binade \<bar>x\<bar> - 52) / 2"
proof (cases "x = 0")
  case True
  with assms pow2_pos [of "binade \<bar>x\<bar> - 52"] show ?thesis
    by (simp add: round64_def less_imp_le)
next
  case False
  define q where "q = pow2 (binade \<bar>x\<bar> - 52)"
  define m where "m = round_half_even (\<bar>x\<bar> / q)"
  have q: "0 < q" by (simp add: q_def pow2_pos)
  from assms False have r: "r = (if x < 0 then - (of_int m * q) else of_int m * q)"
    by (simp add: round64_def Let_def q_def m_def split: if_splits)
  have "\<bar>of_int m - \<bar>x\<bar> / q\<bar> \<le> 1 / 2"
    unfolding m_def by (rule round_half_even_near)
  then have "\<bar>of_int m - \<bar>x\<bar> / q\<bar> * q \<le> 1 / 2 * q"
    using q by (intro mult_right_mono) simp_all
  moreover have "\<bar>of_int m - \<bar>x\<bar> / q\<bar> * q = \<bar>of_int m * q - \<bar>x\<bar>\<bar>"
  proof -
    have "\<bar>of_int m - \<bar>x\<bar> / q\<bar> * q = \<bar>(of_int m - \<bar>x\<bar> / q) * q\<bar>"
      using q by (intro abs_mult_pos) simp
    also have "(of_int m - \<bar>x\<bar> / q) * q = of_int m * q - \<bar>x\<bar>"
      using q by (simp add: left_diff_distrib)
    finally show ?thesis .
  qed
  ultimately have "\<bar>of_int m * q - \<bar>x\<bar>\<bar> \<le> q / 2" by simp
  then have b: "of_int m * q - \<bar>x\<bar> \<le> q / 2" "\<bar>x\<bar> - of_int m * q \<le> q / 2"
    unfolding abs_le_iff by linarith+
  show ?thesis
  proof (cases "x < 0")
    case True
    then have "r = - (of_int m * q)" "\<bar>x\<bar> = - x" by (simp_all add: r)
    with b show ?thesis
      unfolding q_def [symmetric] abs_le_iff by linarith
  next
    case False
    then have "r = of_int m * q" "\<bar>x\<bar> = x" by (simp_all add: r)
    with b show ?thesis
      unfolding q_def [symmetric] abs_le_iff by linarith
  qed
qed

lemma binade_bounds:
  assumes "0 < a"
  shows "a < pow2 (binade a + 1) \<and> (pow2 (binade a) \<le> a \<or> binade a \<le> - 1022)"
proof (cases "1 \<le> a")
  case True
  with bin_up_bounds [of a] show ?thesis by (simp add: binade_def)
next
  case False
  with assms bin_down_bounds [of a 0] show ?thesis
    by (simp add: binade_def pow2_def)
qed

lemma round_half_even_int: "round_half_even (of_int k) = k"
  by (simp add: round_half_even_def)

text \<open>Doubles nearest to some rationals; integers of this size are doubles.\<close>

lemma round64_examples:
  "round64 102400 = Fin 102400"
  "round64 100 = Fin 100"
  "round64 51200 = Fin 51200"
  "round64 50 = Fin 50"
  "round64 (1 / 2) = Fin (1 / 2)"
  "round64 163840 = Fin 163840"
  "round64 160 = Fin 160"
  "round64 23552 = Fin 23552"
  "round64 23 = Fin 23"
  "round64 (23 / 160) = Fin (2589569785738035 / 18014398509481984)"
  "round64 (64739244643450875 / 4503599627370496) = Fin (8092405580431359 / 562949953421312)"
  "round64 (1437 / 100) = Fin (8089590830664253 / 562949953421312)"
  apply (simp_all add: round64_def)
  apply (simp_all add: binade_def bin_up.simps bin_down.simps)
  apply (simp_all add: pow2_def)
  apply (simp_all add: round_half_even_def floor_rat_numeral)
  done

section \<open>Properties: V8Metric\<close>

lemma v8_register_world:
  "timers (snd (v8_register c defs (m, w))) = timers w
   \<and> listeners (snd (v8_register c defs (m, w))) = listeners w
   \<and> debug_log (snd (v8_register c defs (m, w))) = debug_log w
   \<and> v8_timer (fst (v8_register c defs (m, w))) = v8_timer m"
  by (induction defs arbitrary: m w)
     (auto simp: service_metric_def registerMetric_def)

lemma v8_init_ok:
  "arg \<noteq> Flag False \<Longrightarrow> sm_get w ''metrics'' \<Longrightarrow> v8_getHeapStatistics w \<Longrightarrow>
   v8_init arg (m, w) =
     (let config = (case arg of Options c \<Rightarrow> c | _ \<Rightarrow> v8_defaultOptions);
          r = v8_register config metricsDefinitions
                (m\<lparr>v8_metricService := True\<rparr>, logger v8_ns ''init'' w);
          t = length (timers (snd r))
      in ((fst r)\<lparr>v8_timer := Some t\<rparr>,
          unref t (snd (setInterval v8_TIME_INTERVAL (snd r)))))"
  by (simp add: v8_init_def Let_def logger_def setInterval_def is_false_iff
        split: prod.splits)

lemma holding_timers_unref_new:
  "timers w' = timers w @ [\<lparr>t_interval = ms, t_active = a, t_ref = False\<rparr>] \<Longrightarrow>
   holding_timers w' = holding_timers w"
  by (auto simp: holding_timers_def nth_append intro: filter_cong)

lemma holding_world1: "holding_timers world1 = []"
  by (simp add: holding_timers_def world1_def world0_def)

lemma world1_services: "sm_get world1 ''metrics''" "v8_getHeapStatistics world1"
  by (simp_all add: world1_def world0_def sm_get_def)

text \<open>
  C8: after every successful \<open>init\<close> of V8Metric (a configuration other than \<open>false\<close>,
  the metric service present, \<open>getHeapStatistics\<close> available) the component holds a new
  interval timer of 800 ms that is active and unref'd, and the timers that keep the
  process alive are the ones that did so before the call.
\<close>

theorem v8_timer_unref:
  assumes "arg \<noteq> Flag False" and "sm_get w ''metrics''" and "v8_getHeapStatistics w"
  shows "v8_timer (fst (v8_init arg (m, w))) = Some (length (timers w))
         \<and> timers (snd (v8_init arg (m, w))) =
             timers w @ [\<lparr>t_interval = 800, t_active = True, t_ref = False\<rparr>]
         \<and> holding_timers (snd (v8_init arg (m, w))) = holding_timers w"
proof -
  have t: "timers (snd (v8_init arg (m, w))) =
             timers w @ [\<lparr>t_interval = 800, t_active = True, t_ref = False\<rparr>]"
    using assms
    by (simp add: v8_init_ok Let_def setInterval_def unref_def v8_register_world logger_def
          v8_TIME_INTERVAL_def)
  have h: "v8_timer (fst (v8_init arg (m, w))) = Some (length (timers w))"
    using assms by (simp add: v8_init_ok Let_def v8_register_world logger_def)
  show ?thesis
    using holding_timers_unref_new [OF t] by (simp add: h t)
qed

text \<open>
  C8 at a concrete input: \<open>init()\<close> on a new instance, with both services present and
  no timer running, leaves one timer, unref'd, and nothing that keeps the process alive.
\<close>

theorem v8_timer_unref_witness:
  "v8_timer (fst (v8_init Omitted (v8_new, world1))) = Some 0
   \<and> timers (snd (v8_init Omitted (v8_new, world1))) =
        [\<lparr>t_interval = 800, t_active = True, t_ref = False\<rparr>]
   \<and> holding_timers (snd (v8_init Omitted (v8_new, world1))) = []"
proof -
  have "Omitted \<noteq> (Flag False :: v8_config config_arg)" by simp
  from v8_timer_unref [OF this world1_services, of v8_new] show ?thesis
    by (simp add: holding_world1) (simp add: world1_def world0_def)
qed

lemma v8_register_cong:
  "(\<And>k. k \<in> set (map fst defs) \<Longrightarrow> c k = c' k) \<Longrightarrow>
   v8_register c defs mw = v8_register c' defs mw"
  by (induction c defs mw rule: v8_register.induct) (auto split: prod.splits)

lemma v8_register_defs:
  "v8_register c metricsDefinitions (m, w) =
     (let r1 = (if c ''total_heap_size'' = Some False then (m, w)
                else (m\<lparr>v8_metricStore :=
                          (v8_metricStore m)(''total_heap_size'' \<mapsto> Gauge None)\<rparr>,
                      registerMetric
                        (v8_def ''Heap Size'' ''internal/v8/heap/total'' unitKB) w));
          r2 = (if c ''heap_used_percent'' = Some False then r1
                else ((fst r1)\<lparr>v8_metricStore :=
                          (v8_metricStore (fst r1))(''heap_used_percent'' \<mapsto> Gauge None)\<rparr>,
                      registerMetric
                        (v8_def ''Heap Usage'' ''internal/v8/heap/usage'' ''%'') (snd r1)))
      in (if c ''used_heap_size'' = Some False then r2
          else ((fst r2)\<lparr>v8_metricStore :=
                    (v8_metricStore (fst r2))(''used_heap_size'' \<mapsto> Gauge None)\<rparr>,
                registerMetric
                  (v8_def ''Used Heap Size'' ''internal/v8/heap/used'' unitKB) (snd r2))))"
  by (simp add: metricsDefinitions_def service_metric_def Let_def)

lemma metric_ids_register:
  "metric_ids (registerMetric d w) = insert (m_id d) (metric_ids w)"
  by (auto simp: metric_ids_def registerMetric_def)

lemma metric_ids_other:
  "metric_ids (logger ns msg w) = metric_ids w"
  "metric_ids (unref t w) = metric_ids w"
  "metric_ids (snd (setInterval ms w)) = metric_ids w"
  by (simp_all add: metric_ids_def logger_def unref_def setInterval_def)

lemma v8_keys_set:
  "set v8_keys = {''total_heap_size'', ''heap_used_percent'', ''used_heap_size''}"
  by (simp add: v8_keys_def metricsDefinitions_def)

lemma v8_id_simps:
  "v8_id ''total_heap_size'' = ''internal/v8/heap/total''"
  "v8_id ''heap_used_percent'' = ''internal/v8/heap/usage''"
  "v8_id ''used_heap_size'' = ''internal/v8/heap/used''"
  by (simp_all add: v8_id_def metricsDefinitions_def v8_def_def)

text \<open>
  C7, as stated, fails: a configuration with the flag \<open>heap_total_size\<close> set to
  \<open>false\<close> that also binds the key \<open>total_heap_size\<close> to \<open>false\<close>, which the index
  signature admits, keeps \<open>init\<close> from registering the metric \<open>total_heap_size\<close>.
\<close>

theorem v8_registration_counterexample:
  "cfg_heap_off ''heap_total_size'' = Some False
   \<and> v8_metricStore (fst (v8_init (Options cfg_heap_off) (v8_new, world1)))
        ''total_heap_size'' = None
   \<and> ''internal/v8/heap/total''
        \<notin> metric_ids (snd (v8_init (Options cfg_heap_off) (v8_new, world1)))"
  by (simp add: v8_init_def cfg_heap_off_def v8_defaultOptions_def world1_def world0_def
        v8_new_def sm_get_def logger_def metricsDefinitions_def service_metric_def
        registerMetric_def setInterval_def unref_def metric_ids_def v8_def_def Let_def)

text \<open>
  C7, amended: given the metric service and \<open>getHeapStatistics\<close>, \<open>init\<close> with the
  options \<open>c\<close> skips the registration of a definition key \<open>k\<close> (\<open>total_heap_size\<close>,
  \<open>heap_used_percent\<close>, \<open>used_heap_size\<close>) exactly when \<open>c[k]\<close> is \<open>false\<close>: otherwise
  the metric is registered and its gauge stored. Nothing else of \<open>c\<close> is read: two
  configurations that agree on the three keys give the same result, so the declared
  flags \<open>heap_total_size\<close> and \<open>heap_used_size\<close> disable nothing, and
  \<open>heap_used_percent\<close> is the only declared flag that disables one of the three metrics.
\<close>

theorem v8_registration:
  assumes "sm_get w ''metrics''" and "v8_getHeapStatistics w"
  shows "(\<forall>k \<in> set v8_keys.
            (c k \<noteq> Some False \<longrightarrow>
               v8_metricStore (fst (v8_init (Options c) (m, w))) k = Some (Gauge None)
               \<and> v8_id k \<in> metric_ids (snd (v8_init (Options c) (m, w))))
          \<and> (c k = Some False \<longrightarrow>
               v8_metricStore (fst (v8_init (Options c) (m, w))) k = v8_metricStore m k
               \<and> (v8_id k \<in> metric_ids (snd (v8_init (Options c) (m, w))))
                   = (v8_id k \<in> metric_ids w)))
       \<and> ((\<forall>k \<in> set v8_keys. c' k = c k) \<longrightarrow>
             v8_init (Options c') (m, w) = v8_init (Options c) (m, w))"
proof -
  have "v8_register c' metricsDefinitions mw = v8_register c metricsDefinitions mw"
    if "\<forall>k \<in> set v8_keys. c' k = c k" for mw
    using that by (intro v8_register_cong) (auto simp: v8_keys_def)
  then have indep: "(\<forall>k \<in> set v8_keys. c' k = c k) \<longrightarrow>
             v8_init (Options c') (m, w) = v8_init (Options c) (m, w)"
    using assms by (simp add: v8_init_ok)
  have keys: "\<forall>k \<in> set v8_keys.
            (c k \<noteq> Some False \<longrightarrow>
               v8_metricStore (fst (v8_init (Options c) (m, w))) k = Some (Gauge None)
               \<and> v8_id k \<in> metric_ids (snd (v8_init (Options c) (m, w))))
          \<and> (c k = Some False \<longrightarrow>
               v8_metricStore (fst (v8_init (Options c) (m, w))) k = v8_metricStore m k
               \<and> (v8_id k \<in> metric_ids (snd (v8_init (Options c) (m, w))))
                   = (v8_id k \<in> metric_ids w))"
    using assms
    by (simp add: v8_init_ok v8_register_defs Let_def v8_keys_set v8_id_simps v8_def_def
          metric_ids_register metric_ids_other)
  from keys indep show ?thesis by blast
qed

text \<open>
  C7, amended, at a concrete input: with the flags \<open>heap_total_size\<close> and
  \<open>heap_used_size\<close> set to \<open>false\<close>, \<open>init\<close> registers \<open>total_heap_size\<close> and
  \<open>used_heap_size\<close> all the same, and does what it does with the defaults.
\<close>

theorem v8_registration_witness:
  "cfg_flags_off ''heap_total_size'' = Some False
   \<and> cfg_flags_off ''heap_used_size'' = Some False
   \<and> v8_metricStore (fst (v8_init (Options cfg_flags_off) (v8_new, world1)))
        ''total_heap_size'' = Some (Gauge None)
   \<and> v8_metricStore (fst (v8_init (Options cfg_flags_off) (v8_new, world1)))
        ''used_heap_size'' = Some (Gauge None)
   \<and> ''internal/v8/heap/total''
        \<in> metric_ids (snd (v8_init (Options cfg_flags_off) (v8_new, world1)))
   \<and> v8_init (Options v8_defaultOptions) (v8_new, world1)
        = v8_init (Options cfg_flags_off) (v8_new, world1)"
  using v8_registration [OF world1_services, of cfg_flags_off v8_new v8_defaultOptions]
  by (simp add: v8_keys_set v8_id_simps cfg_flags_off_def v8_defaultOptions_def)

lemma v8_update_store:
  "v8_metricStore (v8_update stats defs m) k =
     (if k \<in> fst ` set defs \<and> stats k \<noteq> None \<and> v8_metricStore m k \<noteq> None
      then Some (Gauge (Some (GStr (formatMiBytes (the (stats k))))))
      else v8_metricStore m k)"
proof (induction defs arbitrary: m)
  case Nil
  show ?case by simp
next
  case (Cons a defs)
  obtain k' d where a: "a = (k', d)" by (cases a)
  show ?case
    by (cases "stats k'"; cases "v8_metricStore m k'")
       (auto simp: a Cons.IH gauge_set_def)
qed

lemma v8_tick_store:
  "v8_metricStore (v8_tick stats m) k =
     (if k = ''heap_used_percent'' \<and> v8_metricStore m k \<noteq> None
      then Some (Gauge (Some (GNum (parseFloat (toFixed2
             (js_mul (js_div (to_number (stats ''used_heap_size''))
                             (to_number (stats ''total_heap_size''))) (Fin 100)))))))
      else if k \<in> fst ` set metricsDefinitions \<and> stats k \<noteq> None \<and> v8_metricStore m k \<noteq> None
      then Some (Gauge (Some (GStr (formatMiBytes (the (stats k))))))
      else v8_metricStore m k)"
proof (cases "v8_metricStore m ''heap_used_percent''")
  case None
  then have "v8_metricStore (v8_update stats metricsDefinitions m) ''heap_used_percent'' = None"
    by (simp add: v8_update_store)
  then have "v8_tick stats m = v8_update stats metricsDefinitions m"
    by (simp add: v8_tick_def Let_def)
  with None show ?thesis
    by (auto simp: v8_update_store)
next
  case (Some g)
  then obtain g' where
    "v8_metricStore (v8_update stats metricsDefinitions m) ''heap_used_percent'' = Some g'"
    by (cases "v8_metricStore (v8_update stats metricsDefinitions m) ''heap_used_percent''")
       (auto simp: v8_update_store split: if_splits)
  then have "v8_metricStore (v8_tick stats m) =
      (v8_metricStore (v8_update stats metricsDefinitions m))(''heap_used_percent'' \<mapsto>
         Gauge (Some (GNum (parseFloat (toFixed2
             (js_mul (js_div (to_number (stats ''used_heap_size''))
                             (to_number (stats ''total_heap_size''))) (Fin 100)))))))"
    by (simp add: v8_tick_def Let_def gauge_set_def)
  with Some show ?thesis
    by (simp add: v8_update_store)
qed

lemma defs_keys:
  "fst ` set metricsDefinitions = {''total_heap_size'', ''heap_used_percent'', ''used_heap_size''}"
  by (simp add: metricsDefinitions_def)

text \<open>
  C9: on a timer tick, each heap-size gauge (\<open>total_heap_size\<close>, \<open>used_heap_size\<close>)
  that is registered and whose heap-statistics field is a number is set to the string
  \<open>(bytes / 1024 / 1024).toFixed(2)\<close>, and keeps its value when the field is not a
  number; the heap-usage gauge, when registered, is set to the number
  \<open>parseFloat((used_heap_size / total_heap_size * 100).toFixed(2))\<close>, the quotient, the
  product and the parsed value each rounded to a double; no gauge is added or removed.
\<close>

theorem v8_tick_gauges:
  "(\<forall>k \<in> heap_size_keys. \<forall>bytes.
       stats k = Some bytes \<and> v8_metricStore m k \<noteq> None \<longrightarrow>
       v8_metricStore (v8_tick stats m) k =
         Some (Gauge (Some (GStr (toFixed2 (js_div (js_div bytes (Fin 1024)) (Fin 1024)))))))
   \<and> (\<forall>k \<in> heap_size_keys. stats k = None \<longrightarrow>
       v8_metricStore (v8_tick stats m) k = v8_metricStore m k)
   \<and> (v8_metricStore m ''heap_used_percent'' \<noteq> None \<longrightarrow>
       v8_metricStore (v8_tick stats m) ''heap_used_percent'' =
         Some (Gauge (Some (GNum (parseFloat (toFixed2
           (js_mul (js_div (to_number (stats ''used_heap_size''))
                           (to_number (stats ''total_heap_size''))) (Fin 100))))))))
   \<and> dom (v8_metricStore (v8_tick stats m)) = dom (v8_metricStore m)"
proof -
  have "dom (v8_metricStore (v8_tick stats m)) = dom (v8_metricStore m)"
    by (auto simp: v8_tick_store dom_def split: if_splits)
  then show ?thesis
    by (simp add: v8_tick_store defs_keys heap_size_keys_def formatMiBytes_def)
qed

lemma v8_started_store:
  "v8_metricStore (fst v8_started) =
     [''total_heap_size'' \<mapsto> Gauge None, ''heap_used_percent'' \<mapsto> Gauge None,
      ''used_heap_size'' \<mapsto> Gauge None]"
  by (simp add: v8_started_def v8_init_ok world1_services v8_register_defs Let_def
        v8_defaultOptions_def v8_new_def)

lemma heap_examples:
  "toFixed2 (Fin 100) = ''100.00''"
  "toFixed2 (Fin 50) = ''50.00''"
  "toFixed2 (Fin 160) = ''160.00''"
  "toFixed2 (Fin 23) = ''23.00''"
  "toFixed2 (Fin (8092405580431359 / 562949953421312)) = ''14.37''"
  "parseFloat ''50.00'' = Fin 50"
  "parseFloat ''14.37'' = Fin (8089590830664253 / 562949953421312)"
  by (simp_all add: floor_rat_numeral digit_char_def parseFloat_def is_digit_def
        digit_val_def digits_value_def round64_examples)

text \<open>
  C9 at concrete inputs. With 100 MiB of heap and 50 MiB in use, a tick after \<open>init()\<close>
  sets the gauges to the strings \<open>100.00\<close> and \<open>50.00\<close> and to the number 50. With 160
  MiB of heap and 23 MiB in use, the quotient 0.14375 is no double: the nearest double
  times 100 is the double just below 14.375, so the usage string is \<open>14.37\<close> and the
  gauge is set to the double nearest to 14.37.
\<close>

theorem v8_tick_gauges_witness:
  "v8_metricStore (v8_tick stats0 (fst v8_started)) ''total_heap_size'' =
     Some (Gauge (Some (GStr ''100.00'')))
   \<and> v8_metricStore (v8_tick stats0 (fst v8_started)) ''used_heap_size'' =
     Some (Gauge (Some (GStr ''50.00'')))
   \<and> v8_metricStore (v8_tick stats0 (fst v8_started)) ''heap_used_percent'' =
     Some (Gauge (Some (GNum (Fin 50))))
   \<and> v8_metricStore (v8_tick stats1 (fst v8_started)) ''total_heap_size'' =
     Some (Gauge (Some (GStr ''160.00'')))
   \<and> v8_metricStore (v8_tick stats1 (fst v8_started)) ''used_heap_size'' =
     Some (Gauge (Some (GStr ''23.00'')))
   \<and> toFixed2 (js_mul (js_div (Fin 24117248) (Fin 167772160)) (Fin 100)) = ''14.37''
   \<and> v8_metricStore (v8_tick stats1 (fst v8_started)) ''heap_used_percent'' =
     Some (Gauge (Some (GNum (Fin (8089590830664253 / 562949953421312)))))"
  using v8_tick_gauges [of stats0 "fst v8_started"] v8_tick_gauges [of stats1 "fst v8_started"]
  by (simp add: heap_size_keys_def v8_started_store stats0_def stats1_def to_number_def
        heap_examples round64_examples del: toFixed2.simps)

section \<open>Properties: the life cycle of the metric components\<close>

lemma rm_register_new_frame: "\<exists>r. rm_register_new c w = w\<lparr>registry := r\<rparr>"
  by (cases "gcNewPause c") (auto simp: rm_register_new_def registerMetric_def intro: exI [of _ "registry w"])

lemma rm_register_old_frame: "\<exists>r. rm_register_old c w = w\<lparr>registry := r\<rparr>"
  by (cases "gcOldPause c") (auto simp: rm_register_old_def registerMetric_def intro: exI [of _ "registry w"])

lemma rm_register_switchs_frame:
  "\<exists>r mm. rm_register_switchs c (m, w) = (m\<lparr>rm_metrics := mm\<rparr>, w\<lparr>registry := r\<rparr>)"
proof (cases "contextSwitchs c")
  case True
  then show ?thesis
    by (simp add: rm_register_switchs_def service_histogram_def registerMetric_def Let_def) blast
next
  case False
  then have "rm_register_switchs c (m, w) = (m\<lparr>rm_metrics := rm_metrics m\<rparr>, w\<lparr>registry := registry w\<rparr>)"
    by (simp add: rm_register_switchs_def)
  then show ?thesis by blast
qed

lemma rm_register_faults_frame:
  "\<exists>r mm. rm_register_faults c (m, w) = (m\<lparr>rm_metrics := mm\<rparr>, w\<lparr>registry := r\<rparr>)"
proof (cases "pageFaults c")
  case True
  then show ?thesis
    by (simp add: rm_register_faults_def service_histogram_def registerMetric_def Let_def) blast
next
  case False
  then have "rm_register_faults c (m, w) = (m\<lparr>rm_metrics := rm_metrics m\<rparr>, w\<lparr>registry := registry w\<rparr>)"
    by (simp add: rm_register_faults_def)
  then show ?thesis by blast
qed

lemma rm_init_ok:
  assumes "arg \<noteq> Flag False" and "sm_get w ''metrics''" and "sm_get w ''runtimeStats''"
  shows "\<exists>r mm. rm_init arg (m, w) =
           (m\<lparr>rm_metricService := True, rm_runtimeStatsService := True, rm_metrics := mm,
              rm_handle_ref := Some (length (closures w))\<rparr>,
            w\<lparr>registry := r, debug_log := debug_log w @ [(rm_ns, ''init'')],
              closures := closures w @ [(fresh_histogram w, fresh_histogram w)],
              listeners := listeners w @ [length (closures w)]\<rparr>)"
proof -
  define config where "config = (case arg of Options c \<Rightarrow> c | _ \<Rightarrow> rm_defaultOptions)"
  define m2 where "m2 = m\<lparr>rm_metricService := True, rm_runtimeStatsService := True\<rparr>"
  define w1 where "w1 = logger rm_ns ''init'' w"
  obtain r2 where w2: "rm_register_new config w1 = w1\<lparr>registry := r2\<rparr>"
    using rm_register_new_frame by blast
  obtain r3 where w3: "rm_register_old config (w1\<lparr>registry := r2\<rparr>) = w1\<lparr>registry := r3\<rparr>"
    using rm_register_old_frame [of config "w1\<lparr>registry := r2\<rparr>"] by auto
  obtain r4 mm3 where w4: "rm_register_switchs config (m2, w1\<lparr>registry := r3\<rparr>) =
      (m2\<lparr>rm_metrics := mm3\<rparr>, w1\<lparr>registry := r4\<rparr>)"
    using rm_register_switchs_frame [of config m2 "w1\<lparr>registry := r3\<rparr>"] by auto
  obtain r5 mm4 where w5: "rm_register_faults config (m2\<lparr>rm_metrics := mm3\<rparr>, w1\<lparr>registry := r4\<rparr>) =
      (m2\<lparr>rm_metrics := mm4\<rparr>, w1\<lparr>registry := r5\<rparr>)"
    using rm_register_faults_frame [of config "m2\<lparr>rm_metrics := mm3\<rparr>" "w1\<lparr>registry := r4\<rparr>"] by auto
  have "rm_init arg (m, w) =
           (m\<lparr>rm_metricService := True, rm_runtimeStatsService := True, rm_metrics := mm4,
              rm_handle_ref := Some (length (closures w))\<rparr>,
            w\<lparr>registry := r5, debug_log := debug_log w @ [(rm_ns, ''init'')],
              closures := closures w @ [(fresh_histogram w, fresh_histogram w)],
              listeners := listeners w @ [length (closures w)]\<rparr>)"
    using assms w2 w3 w4 w5
    by (simp add: rm_init_def is_false_iff Let_def config_def [symmetric] m2_def w1_def
          logger_def fresh_histogram_def on_data_def)
  then show ?thesis by blast
qed

lemma rm_init_inv:
  assumes "rm_inv m"
  shows "rm_inv (fst (rm_init arg (m, w)))"
proof (cases "arg = Flag False")
  case True
  with assms show ?thesis by (simp add: rm_init_false)
next
  case False
  show ?thesis
  proof (cases "sm_get w ''metrics''")
    case m: False
    with False assms show ?thesis by (simp add: rm_init_no_metrics rm_inv_def)
  next
    case m: True
    show ?thesis
    proof (cases "sm_get w ''runtimeStats''")
      case False
      with \<open>arg \<noteq> Flag False\<close> m show ?thesis by (simp add: rm_init_no_stats rm_inv_def)
    next
      case True
      with \<open>arg \<noteq> Flag False\<close> m rm_init_ok [of arg w m] show ?thesis
        by (auto simp: rm_inv_def)
    qed
  qed
qed

lemma rm_exec_ok:
  assumes "rm_inv (fst s)"
  shows "\<exists>s'. rm_exec x s = Inr s' \<and> rm_inv (fst s')"
proof (cases s)
  case (Pair m w)
  with assms have inv: "rm_inv m" by simp
  show ?thesis
  proof (cases x)
    case (RmInit arg)
    with Pair inv show ?thesis by (simp add: rm_init_inv)
  next
    case RmDestroy
    with Pair inv show ?thesis
      by (cases "rm_handle_ref m") (auto simp: rm_destroy_def rm_inv_def removeListener_def)
  next
    case (RmProvide n)
    with Pair inv show ?thesis by simp
  next
    case (RmWithdraw n)
    with Pair inv show ?thesis by simp
  qed
qed

lemma rm_run_ok: "rm_inv (fst s) \<Longrightarrow> \<exists>s'. rm_run xs s = Inr s' \<and> rm_inv (fst s')"
proof (induction xs arbitrary: s)
  case Nil
  then show ?case by simp
next
  case (Cons x xs)
  from rm_exec_ok [OF Cons.prems, of x] obtain s1 where
    s1: "rm_exec x s = Inr s1" "rm_inv (fst s1)" by blast
  from Cons.IH [OF s1(2)] s1(1) show ?case by simp
qed

lemma v8_exec_ok: "\<exists>s'. v8_exec x s = Inr s'"
  by (cases x; cases s) (simp_all add: v8_destroy_def Let_def)

lemma v8_run_ok: "\<exists>s'. v8_run xs s = Inr s'"
proof (induction xs arbitrary: s)
  case Nil
  then show ?case by simp
next
  case (Cons x xs)
  obtain s1 where "v8_exec x s = Inr s1" using v8_exec_ok by blast
  with Cons.IH [of s1] show ?case by simp
qed

text \<open>
  C10: \<open>destroy\<close> of V8Metric and of RuntimeMetrics never throws, whatever calls of
  \<open>init\<close> and \<open>destroy\<close> and whatever changes of the located services came before it
  on a new instance: before any \<open>init\<close>, after an \<open>init\<close> that returned early for a
  missing service, and after another \<open>destroy\<close>.
\<close>

theorem destroy_never_throws:
  "(\<exists>s. v8_run (xs @ [V8Destroy]) (v8_new, w) = Inr s)
   \<and> (\<exists>s. rm_run (ys @ [RmDestroy]) (rm_new, w') = Inr s)"
proof -
  have "rm_inv (fst (rm_new, w'))" by (simp add: rm_inv_def rm_new_def)
  from rm_run_ok [OF this] v8_run_ok show ?thesis by blast
qed

text \<open>
  C10 at concrete inputs: \<open>destroy\<close> as the first call; twice after an \<open>init\<close> that
  found no metric service; twice after an \<open>init\<close> that found no runtime-stats service.
\<close>

theorem destroy_never_throws_witness:
  "(\<exists>s. v8_run [V8Destroy] (v8_new, world0) = Inr s)
   \<and> (\<exists>s. v8_run [V8Init Omitted, V8Destroy, V8Destroy] (v8_new, world0) = Inr s)
   \<and> (\<exists>s. rm_run [RmDestroy] (rm_new, world0) = Inr s)
   \<and> (\<exists>s. rm_run [RmProvide ''metrics'', RmInit (Flag True), RmDestroy, RmDestroy] (rm_new, world0) = Inr s)"
  using destroy_never_throws [of "[]" world0 "[]" world0]
    destroy_never_throws [of "[V8Init Omitted, V8Destroy]" world0
       "[RmProvide ''metrics'', RmInit (Flag True), RmDestroy]" world0]
  by simp

lemmas env_defs = sm_get_def logger_def setInterval_def unref_def clearInterval_def
  registerMetric_def service_metric_def on_data_def removeListener_def remove_last_def
  world1_def world0_def

lemma v8_twice:
  "v8_run [V8Init Omitted, V8Init Omitted, V8Destroy] (v8_new, world1) =
     Inr (\<lparr>v8_timer = Some 1, v8_metricService = True,
           v8_metricStore = [''total_heap_size'' \<mapsto> Gauge None,
             ''heap_used_percent'' \<mapsto> Gauge None, ''used_heap_size'' \<mapsto> Gauge None]\<rparr>,
          world1\<lparr>registry := map snd metricsDefinitions,
             timers := [\<lparr>t_interval = 800, t_active = True, t_ref = False\<rparr>,
                        \<lparr>t_interval = 800, t_active = False, t_ref = False\<rparr>],
             debug_log := [(v8_ns, ''init''), (v8_ns, ''init''), (v8_ns, ''destroy'')]\<rparr>)"
  by (simp add: v8_init_def v8_destroy_def v8_new_def env_defs metricsDefinitions_def
        v8_def_def v8_defaultOptions_def v8_TIME_INTERVAL_def Let_def)

lemma rm_twice:
  "\<exists>s. rm_run [RmInit Omitted, RmInit Omitted, RmDestroy] (rm_new, world1) = Inr s
       \<and> listeners (snd s) = [0] \<and> rm_handle_ref (fst s) = Some 1
       \<and> closures (snd s) = [(fresh_histogram world1, fresh_histogram world1),
                              (fresh_histogram world1, fresh_histogram world1)]"
proof -
  have a: "Omitted \<noteq> (Flag False :: runtime_metrics_options config_arg)" by simp
  have s: "sm_get world1 ''metrics''" "sm_get world1 ''runtimeStats''"
    by (simp_all add: sm_get_def world1_def world0_def)
  from rm_init_ok [OF a s, of rm_new] obtain r1 mm1 where
    1: "rm_init Omitted (rm_new, world1) =
          (rm_new\<lparr>rm_metricService := True, rm_runtimeStatsService := True, rm_metrics := mm1,
              rm_handle_ref := Some 0\<rparr>,
           world1\<lparr>registry := r1, debug_log := [(rm_ns, ''init'')],
              closures := [(fresh_histogram world1, fresh_histogram world1)],
              listeners := [0]\<rparr>)" (is "_ = (?m1, ?w1)")
    by (auto simp: world1_def world0_def)
  have s1: "sm_get ?w1 ''metrics''" "sm_get ?w1 ''runtimeStats''"
    by (simp_all add: sm_get_def world1_def world0_def)
  have f: "fresh_histogram ?w1 = fresh_histogram world1"
    by (simp add: fresh_histogram_def)
  from rm_init_ok [OF a s1, of ?m1] obtain m2 w2 where
    2: "rm_init Omitted (?m1, ?w1) = (m2, w2)" "rm_handle_ref m2 = Some 1"
       "rm_runtimeStatsService m2" "listeners w2 = [0, 1]"
       "closures w2 = [(fresh_histogram world1, fresh_histogram world1),
                       (fresh_histogram world1, fresh_histogram world1)]"
    by (auto simp: f)
  show ?thesis
    by (simp add: 1 2 rm_destroy_def removeListener_def remove_last_def logger_def)
qed

lemma rm_emit_gc:
  assumes "closures w = [(h1, h2), c]"
  shows "rm_emit gc_datum [0] (m, w) =
           Returned (m, w\<lparr>closures := [(update (JNum (Fin 5)) h1, update (JNum (Fin 7)) h2), c]\<rparr>)"
  using assms by (simp add: handle_def gc_datum_def Let_def)

text \<open>
  C5 at the input \<open>init(); init(); destroy()\<close>, with both services present. V8Metric:
  \<open>destroy\<close> stops the timer of the second \<open>init\<close> only; the timer of the first is
  still active, and its next tick writes to a gauge. RuntimeMetrics: \<open>destroy\<close>
  detaches the handler of the second \<open>init\<close> only; the handler of the first is still
  attached, and the next datum of the feed reaches its histogram.
\<close>

theorem destroy_after_second_init:
  "(\<exists>s. v8_run [V8Init Omitted, V8Init Omitted, V8Destroy] (v8_new, world1) = Inr s
        \<and> active_timers (snd s) = [0]
        \<and> v8_metricStore (fst s) ''total_heap_size'' = Some (Gauge None)
        \<and> v8_metricStore (fst (v8_fire stats0 s)) ''total_heap_size'' =
            Some (Gauge (Some (GStr ''100.00''))))
   \<and> (\<exists>s s'. rm_run [RmInit Omitted, RmInit Omitted, RmDestroy] (rm_new, world1) = Inr s
        \<and> listeners (snd s) = [0]
        \<and> h_count (fst (closures (snd s) ! 0)) = 0
        \<and> rm_data gc_datum s = Returned s'
        \<and> h_count (fst (closures (snd s') ! 0)) = 1)"
proof -
  have "formatMiBytes (Fin 104857600) = ''100.00''"
    by (simp add: formatMiBytes_def heap_examples round64_examples del: toFixed2.simps)
  then have v8: "\<exists>s. v8_run [V8Init Omitted, V8Init Omitted, V8Destroy] (v8_new, world1) = Inr s
        \<and> active_timers (snd s) = [0]
        \<and> v8_metricStore (fst s) ''total_heap_size'' = Some (Gauge None)
        \<and> v8_metricStore (fst (v8_fire stats0 s)) ''total_heap_size'' =
            Some (Gauge (Some (GStr ''100.00'')))"
    by (subst v8_twice) (simp add: active_timers_def v8_fire_def v8_tick_store defs_keys stats0_def)
  from rm_twice obtain m w where
    s: "rm_run [RmInit Omitted, RmInit Omitted, RmDestroy] (rm_new, world1) = Inr (m, w)"
       "listeners w = [0]"
       "closures w = [(fresh_histogram world1, fresh_histogram world1),
                      (fresh_histogram world1, fresh_histogram world1)]"
    by auto
  have "rm_data gc_datum (m, w) =
          Returned (m, w\<lparr>closures := [(update (JNum (Fin 5)) (fresh_histogram world1),
                                       update (JNum (Fin 7)) (fresh_histogram world1)),
                                      (fresh_histogram world1, fresh_histogram world1)]\<rparr>)"
    using rm_emit_gc [OF s(3), of m] by (simp add: rm_data_def s(2) del: rm_emit.simps)
  with s have "\<exists>s s'. rm_run [RmInit Omitted, RmInit Omitted, RmDestroy] (rm_new, world1) = Inr s
        \<and> listeners (snd s) = [0]
        \<and> h_count (fst (closures (snd s) ! 0)) = 0
        \<and> rm_data gc_datum s = Returned s'
        \<and> h_count (fst (closures (snd s') ! 0)) = 1"
    by (simp add: fresh_histogram_def new_histogram_def update_def)
  with v8 show ?thesis by blast
qed

lemma remove_last_new: "remove_last h (ls @ [h]) = ls"
  by (simp add: remove_last_def)

lemma active_timers_stopped:
  "active_timers (w\<lparr>timers := timers w @ [\<lparr>t_interval = ms, t_active = False, t_ref = r\<rparr>]\<rparr>) =
     active_timers w"
  by (auto simp: active_timers_def nth_append intro: filter_cong)

text \<open>
  On a new instance, \<open>init\<close> followed by \<open>destroy\<close> leaves the active timers and the
  attached listeners as they were before, whatever \<open>init\<close> was given and found.
\<close>

lemma destroy_after_single_init:
  "(v8_timer m = None \<longrightarrow>
      (\<exists>s. v8_run [V8Init arg, V8Destroy] (m, w) = Inr s \<and> active_timers (snd s) = active_timers w))
   \<and> (rm_handle_ref m' = None \<and> \<not> rm_runtimeStatsService m' \<longrightarrow>
      (\<exists>s. rm_run [RmInit arg', RmDestroy] (m', w) = Inr s \<and> listeners (snd s) = listeners w))"
proof -
  have v8: "\<exists>s. v8_run [V8Init arg, V8Destroy] (m, w) = Inr s \<and> active_timers (snd s) = active_timers w"
    if t: "v8_timer m = None"
  proof (cases "arg \<noteq> Flag False \<and> sm_get w ''metrics'' \<and> v8_getHeapStatistics w")
    case True
    then have a: "arg \<noteq> Flag False" "sm_get w ''metrics''" "v8_getHeapStatistics w" by simp_all
    obtain m1 w1 where i: "v8_init arg (m, w) = (m1, w1)" by (cases "v8_init arg (m, w)")
    have 1: "v8_timer m1 = Some (length (timers w))"
      using a i v8_init_ok [OF a, of m] by (auto simp: Let_def v8_register_world logger_def)
    have 2: "timers w1 = timers w @ [\<lparr>t_interval = 800, t_active = True, t_ref = False\<rparr>]"
      using a i v8_init_ok [OF a, of m]
      by (auto simp: Let_def v8_register_world logger_def setInterval_def unref_def
            v8_TIME_INTERVAL_def)
    have "active_timers (logger v8_ns ''destroy'' (clearInterval (length (timers w)) w1)) =
            active_timers w"
      by (auto simp: clearInterval_def 2 logger_def active_timers_def nth_append
            intro: filter_cong)
    then show ?thesis
      by (simp add: i v8_destroy_def 1)
  next
    case False
    then consider "arg = Flag False" | "arg \<noteq> Flag False" "\<not> sm_get w ''metrics''"
      | "arg \<noteq> Flag False" "sm_get w ''metrics''" "\<not> v8_getHeapStatistics w" by blast
    then show ?thesis
    proof cases
      case 1
      with t show ?thesis
        by (simp add: v8_init_false v8_destroy_def logger_def active_timers_def)
    next
      case 2
      with t show ?thesis
        by (simp add: v8_init_no_service v8_destroy_def logger_def active_timers_def)
    next
      case 3
      with t show ?thesis
        by (simp add: v8_init_def is_false_iff Let_def v8_destroy_def logger_def
              active_timers_def)
    qed
  qed
  have rm: "\<exists>s. rm_run [RmInit arg', RmDestroy] (m', w) = Inr s \<and> listeners (snd s) = listeners w"
    if h: "rm_handle_ref m' = None" "\<not> rm_runtimeStatsService m'"
  proof (cases "arg' \<noteq> Flag False \<and> sm_get w ''metrics'' \<and> sm_get w ''runtimeStats''")
    case True
    then have a: "arg' \<noteq> Flag False" "sm_get w ''metrics''" "sm_get w ''runtimeStats''"
      by simp_all
    from rm_init_ok [OF a, of m'] show ?thesis
      by (auto simp: rm_destroy_def removeListener_def remove_last_new logger_def)
  next
    case False
    then consider "arg' = Flag False" | "arg' \<noteq> Flag False" "\<not> sm_get w ''metrics''"
      | "arg' \<noteq> Flag False" "sm_get w ''metrics''" "\<not> sm_get w ''runtimeStats''" by blast
    then show ?thesis
    proof cases
      case 1
      with h show ?thesis by (simp add: rm_init_false rm_destroy_def logger_def)
    next
      case 2
      with h show ?thesis by (simp add: rm_init_no_metrics rm_destroy_def logger_def)
    next
      case 3
      with h show ?thesis by (simp add: rm_init_no_stats rm_destroy_def logger_def)
    qed
  qed
  from v8 rm show ?thesis by blast
qed

section \<open>Properties: the data handler of RuntimeMetrics\<close>

text \<open>
  C6, as stated, fails: handed \<open>undefined\<close>, the handler returns with everything as it
  was, the log included; it logs nothing.
\<close>

theorem handle_malformed_silent:
  "handle JUndefined env0 = Returned env0 \<and> hlog env0 = []"
  by (simp add: handle_def env0_def)

text \<open>\<open>typeof null\<close> is \<open>object\<close>: the handler reads a property of \<open>null\<close> and throws.\<close>

lemma handle_null_throws:
  "handle JNull e = Thrown TypeError e"
  "handle (JObj [(''gc'', JNull)]) e = Thrown TypeError e"
  by (simp_all add: handle_def)

text \<open>
  C6, amended: for every datum whose \<open>typeof\<close> is not \<open>object\<close>, and for every object
  whose \<open>gc\<close> field has a \<open>typeof\<close> other than \<open>object\<close>, the handler returns without
  throwing and leaves every histogram, and the log, as it was; for an object whose \<open>gc\<close>
  field is an object and whose \<open>usage\<close> field has a \<open>typeof\<close> other than \<open>object\<close>, it
  returns having updated the two GC-pause histograms with \<open>gc.newPause\<close> and
  \<open>gc.oldPause\<close> and nothing else.
\<close>

theorem handle_malformed:
  "(typeof stats \<noteq> ''object'' \<longrightarrow> handle stats e = Returned e)
   \<and> (stats = JObj fs \<and> get_prop stats ''gc'' = Inr gc \<and> typeof gc \<noteq> ''object'' \<longrightarrow>
        handle stats e = Returned e)
   \<and> (stats = JObj fs \<and> get_prop stats ''gc'' = Inr (JObj gfs)
        \<and> get_prop stats ''usage'' = Inr usage \<and> typeof usage \<noteq> ''object'' \<longrightarrow>
        (\<exists>newPause oldPause.
           get_prop (JObj gfs) ''newPause'' = Inr newPause
           \<and> get_prop (JObj gfs) ''oldPause'' = Inr oldPause
           \<and> handle stats e =
               Returned (e\<lparr>newHistogram := update newPause (newHistogram e),
                           oldHistogram := update oldPause (oldHistogram e)\<rparr>)))"
  by (auto simp: handle_def Let_def)

text \<open>
  C6, amended, at concrete inputs: a number; an object with a string for \<open>gc\<close>; an
  object with an object for \<open>gc\<close> and a number for \<open>usage\<close>.
\<close>

theorem handle_malformed_witness:
  "handle (JNum (Fin 3)) env0 = Returned env0
   \<and> handle (JObj [(''gc'', JStr ''x'')]) env0 = Returned env0
   \<and> handle (JObj [(''gc'', JObj [(''newPause'', JNum (Fin 5))]), (''usage'', JNum (Fin 1))]) env0 =
       Returned (env0\<lparr>newHistogram := update (JNum (Fin 5)) (newHistogram env0),
                      oldHistogram := update JUndefined (oldHistogram env0)\<rparr>)"
  using handle_malformed [where stats = "JNum (Fin 3)" and e = env0 and fs = "[]"
          and gc = JUndefined and gfs = "[]" and usage = JUndefined]
    handle_malformed [where stats = "JObj [(''gc'', JStr ''x'')]" and e = env0
          and fs = "[(''gc'', JStr ''x'')]" and gc = "JStr ''x''" and gfs = "[]"
          and usage = JUndefined]
    handle_malformed [where
          stats = "JObj [(''gc'', JObj [(''newPause'', JNum (Fin 5))]), (''usage'', JNum (Fin 1))]"
          and e = env0
          and fs = "[(''gc'', JObj [(''newPause'', JNum (Fin 5))]), (''usage'', JNum (Fin 1))]"
          and gc = "JObj [(''newPause'', JNum (Fin 5))]"
          and gfs = "[(''newPause'', JNum (Fin 5))]" and usage = "JNum (Fin 1)"]
  by simp

section \<open>Properties: the transport channel\<close>

lemma enqueue_all:
  "length q \<le> cap \<Longrightarrow>
   foldl (\<lambda>q msg. enqueue cap msg q) q msgs = drop (length (q @ msgs) - cap) (q @ msgs)"
proof (induction msgs arbitrary: q)
  case Nil
  then show ?case by simp
next
  case (Cons m msgs)
  have len: "length (enqueue cap m q) \<le> cap"
    by (simp add: enqueue_def Let_def)
  have "foldl (\<lambda>q msg. enqueue cap msg q) (enqueue cap m q) msgs =
          drop (length (enqueue cap m q @ msgs) - cap) (enqueue cap m q @ msgs)"
    using Cons.IH [OF len] .
  also have "enqueue cap m q @ msgs = drop (Suc (length q) - cap) (q @ m # msgs)"
  proof -
    have "drop (Suc (length q) - cap) ((q @ [m]) @ msgs) =
            drop (Suc (length q) - cap) (q @ [m]) @ msgs"
      by (subst drop_append) simp
    then show ?thesis by (simp add: enqueue_def Let_def)
  qed
  also have "drop (length (drop (Suc (length q) - cap) (q @ m # msgs)) - cap)
                (drop (Suc (length q) - cap) (q @ m # msgs)) =
             drop (length (q @ m # msgs) - cap) (q @ m # msgs)"
  proof -
    define zs where "zs = q @ m # msgs"
    define b where "b = Suc (length q) - cap"
    have "length zs - b - cap + b = length zs - cap"
      using Cons.prems by (simp add: zs_def b_def)
    then have "drop (length (drop b zs) - cap) (drop b zs) = drop (length zs - cap) zs"
      by (simp add: add.commute)
    then show ?thesis by (simp only: zs_def b_def)
  qed
  finally show ?case by simp
qed

lemma send_disconnected:
  "ch_state c = Disconnected \<Longrightarrow>
   send topic payload c = c\<lparr>ch_queue := enqueue (ch_capacity c) (topic, payload) (ch_queue c)\<rparr>"
  by (simp add: send_def)

lemma send_all_disconnected:
  "ch_state c = Disconnected \<Longrightarrow>
   send_all msgs c =
     c\<lparr>ch_queue := foldl (\<lambda>q msg. enqueue (ch_capacity c) msg q) (ch_queue c) msgs\<rparr>"
  unfolding send_all_def
proof (induction msgs arbitrary: c)
  case Nil
  then show ?case by simp
next
  case (Cons m msgs)
  then show ?case by (cases m) (simp add: send_disconnected)
qed

text \<open>
  C2: on a disconnected channel with a capacity of at least one and a queue within it,
  after any sequence of sends the queue holds the last entries of what was queued and
  sent, in submission order and at most as many as the capacity; the newest payload is
  the last entry, so it is never the one given up; a send to a full queue gives up the
  oldest entry; nothing is delivered while disconnected; and once the channel is
  connected the buffered entries have been delivered in their order and the queue is empty.
\<close>

theorem buffered_sends:
  assumes "ch_state c = Disconnected" and "0 < ch_capacity c"
    and "length (ch_queue c) \<le> ch_capacity c"
  shows "ch_queue (send_all msgs c) =
           drop (length (ch_queue c @ msgs) - ch_capacity c) (ch_queue c @ msgs)
         \<and> length (ch_queue (send_all msgs c)) \<le> ch_capacity c
         \<and> (msgs \<noteq> [] \<longrightarrow> last (ch_queue (send_all msgs c)) = last msgs)
         \<and> (length (ch_queue c) = ch_capacity c \<longrightarrow>
              ch_queue (send topic payload c) = tl (ch_queue c) @ [(topic, payload)])
         \<and> ch_wire (send_all msgs c) = ch_wire c
         \<and> ch_state (connected (reconnect (send_all msgs c))) = Connected
         \<and> ch_wire (connected (reconnect (send_all msgs c))) =
              ch_wire c @ ch_queue (send_all msgs c)
         \<and> ch_queue (connected (reconnect (send_all msgs c))) = []"
proof -
  let ?all = "ch_queue c @ msgs"
  have q: "ch_queue (send_all msgs c) = drop (length ?all - ch_capacity c) ?all"
    using assms by (simp add: send_all_disconnected enqueue_all)
  have newest: "last (drop (length ?all - ch_capacity c) ?all) = last msgs" if "msgs \<noteq> []"
  proof -
    from that assms(2) have "length ?all - ch_capacity c < length ?all" by simp
    then have "last (drop (length ?all - ch_capacity c) ?all) = last ?all"
      by (rule last_drop)
    with that show ?thesis by simp
  qed
  have full: "ch_queue (send topic payload c) = tl (ch_queue c) @ [(topic, payload)]"
    if "length (ch_queue c) = ch_capacity c"
    using that assms by (cases "ch_queue c") (simp_all add: send_disconnected enqueue_def Let_def)
  have rest: "ch_wire (send_all msgs c) = ch_wire c"
     "ch_state (connected (reconnect (send_all msgs c))) = Connected"
     "ch_wire (connected (reconnect (send_all msgs c))) = ch_wire c @ ch_queue (send_all msgs c)"
     "ch_queue (connected (reconnect (send_all msgs c))) = []"
    using assms by (simp_all add: send_all_disconnected connected_def reconnect_def)
  from q newest full rest show ?thesis by simp
qed

text \<open>
  C2 at concrete inputs: three payloads sent to a new channel of capacity 2 leave the
  second and third, delivered in that order on connection; with capacity 3 all three
  are delivered in order.
\<close>

theorem buffered_sends_witness:
  "ch_queue (send_all msgs3 (new_channel 2)) =
     [(''metrics'', JNum (Fin 2)), (''metrics'', JNum (Fin 3))]
   \<and> ch_wire (connected (reconnect (send_all msgs3 (new_channel 2)))) =
     [(''metrics'', JNum (Fin 2)), (''metrics'', JNum (Fin 3))]
   \<and> ch_wire (connected (reconnect (send_all msgs3 (new_channel 3)))) = msgs3"
  using buffered_sends [of "new_channel 2" msgs3] buffered_sends [of "new_channel 3" msgs3]
  by (simp add: new_channel_def msgs3_def)

section \<open>Properties: the histogram\<close>

lemma interp_bounds:
  fixes a b l u f :: rat
  assumes "0 \<le> f" "f \<le> 1" "a \<le> l" "l \<le> b" "a \<le> u" "u \<le> b"
  shows "a \<le> l + f * (u - l) \<and> l + f * (u - l) \<le> b"
proof -
  have eq: "l + f * (u - l) = (1 - f) * l + f * u"
    by (simp add: algebra_simps)
  have "(1 - f) * a + f * a \<le> (1 - f) * l + f * u"
    using assms by (intro add_mono mult_left_mono) simp_all
  moreover have "(1 - f) * l + f * u \<le> (1 - f) * b + f * b"
    using assms by (intro add_mono mult_left_mono) simp_all
  ultimately show ?thesis
    by (simp add: eq algebra_simps)
qed

lemma percentile_bounds:
  assumes "vals \<noteq> []"
  shows "\<exists>y. percentile vals p = JNum (Fin y)
             \<and> Min (set vals) \<le> y \<and> y \<le> Max (set vals)"
proof -
  define n where "n = length vals"
  define pos where "pos = p * (of_nat n + 1)"
  have n: "0 < n" using assms by (simp add: n_def)
  have mem: "Min (set vals) \<le> vals ! i \<and> vals ! i \<le> Max (set vals)" if "i < n" for i
    using that by (simp add: n_def)
  show ?thesis
  proof (cases "pos < 1")
    case True
    with n mem [of 0] show ?thesis
      by (simp add: percentile_def Let_def n_def [symmetric] pos_def [symmetric])
  next
    case low: False
    show ?thesis
    proof (cases "of_nat n \<le> pos")
      case True
      with low n mem [of "n - 1"] show ?thesis
        by (simp add: percentile_def Let_def n_def [symmetric] pos_def [symmetric])
    next
      case False
      from low have "1 \<le> \<lfloor>pos\<rfloor>" by simp
      moreover from False have "\<lfloor>pos\<rfloor> < int n" by (simp add: floor_less_iff)
      ultimately have i1: "nat \<lfloor>pos\<rfloor> - 1 < n" by linarith
      from False have "\<lceil>pos\<rceil> \<le> int n" by (simp add: ceiling_le_iff)
      with n have i2: "nat \<lceil>pos\<rceil> - 1 < n" by linarith
      have f: "0 \<le> pos - of_int \<lfloor>pos\<rfloor>" "pos - of_int \<lfloor>pos\<rfloor> \<le> 1"
        by linarith+
      from interp_bounds [OF f] mem [OF i1] mem [OF i2]
      have "Min (set vals) \<le> vals ! (nat \<lfloor>pos\<rfloor> - 1)
               + (pos - of_int \<lfloor>pos\<rfloor>) * (vals ! (nat \<lceil>pos\<rceil> - 1) - vals ! (nat \<lfloor>pos\<rfloor> - 1))
          \<and> vals ! (nat \<lfloor>pos\<rfloor> - 1)
               + (pos - of_int \<lfloor>pos\<rfloor>) * (vals ! (nat \<lceil>pos\<rceil> - 1) - vals ! (nat \<lfloor>pos\<rfloor> - 1))
             \<le> Max (set vals)"
        by blast
      with low False n show ?thesis
        by (simp add: percentile_def Let_def n_def [symmetric] pos_def [symmetric])
    qed
  qed
qed

lemma retain_subset: "set (retain x h) \<subseteq> insert x (set (h_sample h))"
  using set_update_subset_insert [of "h_sample h" _ x]
  by (auto simp: retain_def split: option.splits)

lemma retain_length: "length (h_sample h) \<le> length (retain x h)"
  by (simp add: retain_def split: option.splits)

lemma retain_nonempty: "0 < h_capacity h \<Longrightarrow> retain x h \<noteq> []"
  by (auto simp: retain_def split: option.splits)

lemma update_capacity: "h_capacity (update v h) = h_capacity h"
  by (simp add: update_def split: option.splits)

lemma observe_all_capacity: "h_capacity (observe_all vs h) = h_capacity h"
  unfolding observe_all_def
  by (induction vs arbitrary: h) (simp_all add: update_capacity)

lemma update_length: "length (h_sample h) \<le> length (h_sample (update v h))"
  by (simp add: update_def retain_length split: option.splits)

lemma observe_all_length: "length (h_sample h) \<le> length (h_sample (observe_all vs h))"
  unfolding observe_all_def
proof (induction vs arbitrary: h)
  case Nil
  show ?case by simp
next
  case (Cons v vs)
  from update_length [of h v] Cons [of "update v h"] show ?case by simp
qed

lemma folded_Cons:
  "folded (v # vs) = (case finite_of v of None \<Rightarrow> folded vs | Some x \<Rightarrow> x # folded vs)"
  by (simp add: folded_def split: option.splits)

lemma update_subset:
  "set (h_sample (update v h)) \<subseteq> set (h_sample h) \<union> set (folded [v])"
  using retain_subset [of _ h]
  by (auto simp: update_def folded_def split: option.splits)

lemma observe_all_subset:
  "set (h_sample (observe_all vs h)) \<subseteq> set (h_sample h) \<union> set (folded vs)"
  unfolding observe_all_def
proof (induction vs arbitrary: h)
  case Nil
  show ?case by simp
next
  case (Cons v vs)
  from Cons [of "update v h"] update_subset [of v h] show ?case
    by (auto simp: folded_Cons folded_def split: option.splits)
qed

lemma observe_all_nonempty:
  "0 < h_capacity h \<Longrightarrow> folded vs \<noteq> [] \<Longrightarrow> h_sample (observe_all vs h) \<noteq> []"
proof (induction vs arbitrary: h)
  case Nil
  then show ?case by (simp add: folded_def)
next
  case (Cons v vs)
  show ?case
  proof (cases "finite_of v")
    case None
    with Cons.prems have "folded vs \<noteq> []" by (simp add: folded_Cons)
    with Cons.IH [of "update v h"] Cons.prems(1) show ?thesis
      by (simp add: observe_all_def update_capacity)
  next
    case (Some x)
    with Cons.prems(1) have "h_sample (update v h) \<noteq> []"
      by (simp add: update_def retain_nonempty)
    with observe_all_length [of "update v h" vs] show ?thesis
      by (auto simp: observe_all_def)
  qed
qed

lemma p50_handler_eq: "p50_handler h = percentile (sort (h_sample h)) (1/2)"
  by (simp add: p50_handler_def percentiles_def)

text \<open>
  C3: for every sequence of observations of which at least one is folded into a
  histogram of positive capacity, whatever its replacement policy, the p50 handler
  returns a number between the least and the greatest folded observation; with nothing
  folded, the empty sequence included, it returns the "no data" value.
\<close>

theorem p50_between:
  "(0 < cap \<and> folded vs \<noteq> [] \<longrightarrow>
      (case p50_handler (observe_all vs (new_histogram cap pol)) of
         JNum (Fin y) \<Rightarrow> Min (set (folded vs)) \<le> y \<and> y \<le> Max (set (folded vs))
       | _ \<Rightarrow> False))
   \<and> (folded vs = [] \<longrightarrow> p50_handler (observe_all vs (new_histogram cap pol)) = no_data)"
proof -
  let ?h = "observe_all vs (new_histogram cap pol)"
  have sub: "set (h_sample ?h) \<subseteq> set (folded vs)"
    using observe_all_subset [of vs "new_histogram cap pol"] by (simp add: new_histogram_def)
  have "case p50_handler ?h of
         JNum (Fin y) \<Rightarrow> Min (set (folded vs)) \<le> y \<and> y \<le> Max (set (folded vs))
       | _ \<Rightarrow> False" if "0 < cap" "folded vs \<noteq> []"
  proof -
    from that have ne: "h_sample ?h \<noteq> []"
      by (intro observe_all_nonempty) (simp_all add: new_histogram_def)
    then have "sort (h_sample ?h) \<noteq> []"
      by (metis length_0_conv length_sort)
    from percentile_bounds [OF this, of "1/2"] obtain y where
      y: "p50_handler ?h = JNum (Fin y)" "Min (set (h_sample ?h)) \<le> y" "y \<le> Max (set (h_sample ?h))"
      by (auto simp: p50_handler_eq)
    from sub ne have "Min (set (folded vs)) \<le> Min (set (h_sample ?h))"
      by (intro Min_antimono) simp_all
    moreover from sub ne have "Max (set (h_sample ?h)) \<le> Max (set (folded vs))"
      by (intro Max_mono) simp_all
    ultimately show ?thesis using y by simp
  qed
  moreover have "p50_handler ?h = no_data" if "folded vs = []"
  proof -
    from that sub have "h_sample ?h = []" by simp
    then show ?thesis by (simp add: p50_handler_eq percentile_def)
  qed
  ultimately show ?thesis by blast
qed

text \<open>
  C3 at concrete inputs: after 100, 0, 50 the handler returns 50; after no observation,
  and after \<open>NaN\<close> and \<open>undefined\<close> only, it returns the "no data" value.
\<close>

theorem p50_between_witness:
  "p50_handler (observe_all [JNum (Fin 100), JNum (Fin 0), JNum (Fin 50)]
      (new_histogram 4 (\<lambda>n. Some n))) = JNum (Fin 50)
   \<and> p50_handler (observe_all [] (new_histogram 4 (\<lambda>n. Some n))) = no_data
   \<and> p50_handler (observe_all [JNum NaN, JUndefined] (new_histogram 4 (\<lambda>n. Some n))) = no_data"
  using p50_between [of 4 "[JNum (Fin 100), JNum (Fin 0), JNum (Fin 50)]" "\<lambda>n. Some n"]
    p50_between [of 4 "[]" "\<lambda>n. Some n"]
    p50_between [of 4 "[JNum NaN, JUndefined]" "\<lambda>n. Some n"]
  by (simp add: folded_def p50_handler_eq observe_all_def update_def
        new_histogram_def retain_def percentile_def)

section \<open>Properties: number formatting\<close>

text \<open>
  The strings \<open>toFixed2\<close> writes for finite numbers are read back by \<open>parseFloat\<close>
  as the double nearest to the number rounded to hundredths.
\<close>

lemma digit_val_char: "digit_val (digit_char d) = Some (d mod 10)"
proof -
  define k where "k = d mod 10"
  have "k < 10" by (simp add: k_def)
  then have "k = 0 \<or> k = 1 \<or> k = 2 \<or> k = 3 \<or> k = 4 \<or> k = 5 \<or> k = 6 \<or> k = 7
               \<or> k = 8 \<or> k = 9" by arith
  then show ?thesis
    unfolding digit_char_def k_def [symmetric] by (auto simp: digit_val_def)
qed

lemma is_digit_char: "is_digit (digit_char d)"
  by (simp add: is_digit_def digit_val_char)

lemma not_digit_dot: "\<not> is_digit CHR ''.''"
  by (simp add: is_digit_def digit_val_def)

lemma digits_value_snoc:
  "digits_value (ds @ [c]) =
     10 * digits_value ds + (case digit_val c of None \<Rightarrow> 0 | Some d \<Rightarrow> d)"
  by (simp add: digits_value_def)

declare nat_digits.simps [simp del]

lemma nat_digits_all: "list_all is_digit (nat_digits n)"
  by (induction n rule: nat_digits.induct)
     (subst nat_digits.simps, simp add: is_digit_char)

lemma nat_digits_nonempty: "nat_digits n \<noteq> []"
  by (subst nat_digits.simps) simp

lemma nat_digits_value: "digits_value (nat_digits n) = n"
proof (induction n rule: nat_digits.induct)
  case (1 n)
  show ?case
  proof (cases "n < 10")
    case True
    then show ?thesis
      by (subst nat_digits.simps) (simp add: digits_value_def digit_val_char)
  next
    case False
    with 1 show ?thesis
      by (subst nat_digits.simps) (simp add: digits_value_snoc digit_val_char)
  qed
qed

lemma takeWhile_digits:
  "list_all is_digit ds \<Longrightarrow> takeWhile is_digit (ds @ CHR ''.'' # rest) = ds"
  "list_all is_digit ds \<Longrightarrow> dropWhile is_digit (ds @ CHR ''.'' # rest) = CHR ''.'' # rest"
  by (induction ds) (simp_all add: not_digit_dot)

lemma parse_unsigned:
  assumes "list_all is_digit ds" and "ds \<noteq> []"
  shows "parseFloat (ds @ CHR ''.'' # [digit_char a, digit_char b]) =
           round64 (of_nat (digits_value ds) + of_nat (10 * (a mod 10) + b mod 10) / 100)"
proof -
  obtain c cs where ds: "ds = c # cs" using assms(2) by (cases ds) auto
  with assms(1) have c: "is_digit c" by simp
  then have c': "c \<noteq> CHR ''-''" "c \<noteq> CHR ''+''" "c \<noteq> CHR ''I''"
    by (auto simp: is_digit_def digit_val_def)
  have t: "takeWhile is_digit (ds @ CHR ''.'' # [digit_char a, digit_char b]) = ds"
          "dropWhile is_digit (ds @ CHR ''.'' # [digit_char a, digit_char b]) =
             CHR ''.'' # [digit_char a, digit_char b]"
    using assms(1) by (simp_all add: takeWhile_digits)
  have f: "digits_value [digit_char a, digit_char b] = 10 * (a mod 10) + b mod 10"
    by (simp add: digits_value_def digit_val_char)
  have hd: "take 1 (ds @ CHR ''.'' # [digit_char a, digit_char b]) = [c]"
    by (simp add: ds)
  have inf: "take 8 (ds @ CHR ''.'' # [digit_char a, digit_char b]) \<noteq> ''Infinity''"
    using c' by (simp add: ds)
  show ?thesis
    unfolding parseFloat_def Let_def hd
    using c' assms(2) inf by (simp add: t f is_digit_char)
qed

lemma parse_negative:
  assumes "list_all is_digit ds" and "ds \<noteq> []"
  shows "parseFloat (CHR ''-'' # ds @ CHR ''.'' # [digit_char a, digit_char b]) =
           round64 (- (of_nat (digits_value ds) + of_nat (10 * (a mod 10) + b mod 10) / 100))"
proof -
  obtain c cs where ds: "ds = c # cs" using assms(2) by (cases ds) auto
  with assms(1) have c: "is_digit c" by simp
  then have c': "c \<noteq> CHR ''I''"
    by (auto simp: is_digit_def digit_val_def)
  have t: "takeWhile is_digit (ds @ CHR ''.'' # [digit_char a, digit_char b]) = ds"
          "dropWhile is_digit (ds @ CHR ''.'' # [digit_char a, digit_char b]) =
             CHR ''.'' # [digit_char a, digit_char b]"
    using assms(1) by (simp_all add: takeWhile_digits)
  have f: "digits_value [digit_char a, digit_char b] = 10 * (a mod 10) + b mod 10"
    by (simp add: digits_value_def digit_val_char)
  have inf: "take 8 (ds @ CHR ''.'' # [digit_char a, digit_char b]) \<noteq> ''Infinity''"
    using c' by (simp add: ds)
  show ?thesis
    unfolding parseFloat_def Let_def
    using assms(2) inf by (simp add: t f is_digit_char)
qed

lemma two_digits: "10 * (n div 10 mod 10) + n mod 10 = n mod (100::nat)"
  using mod_mult2_eq [of n 10 10] by simp

lemma hundredths:
  "(of_nat (n div 100) :: rat) + of_nat (n mod 100) / 100 = of_nat n / 100"
proof -
  have "(of_nat n :: rat) = of_nat (n div 100 * 100 + n mod 100)" by simp
  also have "\<dots> = of_nat (n div 100) * 100 + of_nat (n mod 100)"
    by (simp only: of_nat_add of_nat_mult of_nat_numeral)
  finally show ?thesis by (simp add: field_simps)
qed

text \<open>
  Reading back what \<open>toFixed(2)\<close> wrote gives the double nearest to the number rounded
  to hundredths, half away from zero.
\<close>

lemma parseFloat_toFixed2:
  "parseFloat (toFixed2 (Fin x)) =
     round64 ((if x < 0 then - 1 else 1) * of_nat (nat \<lfloor>\<bar>x\<bar> * 100 + 1 / 2\<rfloor>) / 100)"
proof -
  define n where "n = nat \<lfloor>\<bar>x\<bar> * 100 + 1 / 2\<rfloor>"
  let ?body = "nat_digits (n div 100) @ CHR ''.'' # [digit_char (n div 10), digit_char n]"
  have v: "(of_nat (digits_value (nat_digits (n div 100))) :: rat)
             + of_nat (10 * (n div 10 mod 10) + n mod 10) / 100 = of_nat n / 100"
    by (simp only: nat_digits_value two_digits hundredths)
  have tf: "toFixed2 (Fin x) = (if x < 0 then ''-'' else []) @ ?body"
    unfolding n_def by (simp only: toFixed2.simps Let_def append.simps)
  show ?thesis
  proof (cases "x < 0")
    case True
    then have "parseFloat (toFixed2 (Fin x)) = parseFloat (CHR ''-'' # ?body)"
      by (simp only: tf if_True append.simps)
    also have "\<dots> = round64 (- (of_nat (digits_value (nat_digits (n div 100)))
                 + of_nat (10 * (n div 10 mod 10) + n mod 10) / 100))"
      by (rule parse_negative [OF nat_digits_all nat_digits_nonempty])
    also have "\<dots> = round64 (- (of_nat n / 100))"
      by (simp only: v)
    finally show ?thesis
      using True unfolding n_def by simp
  next
    case False
    then have "parseFloat (toFixed2 (Fin x)) = parseFloat ?body"
      by (simp only: tf if_False append.simps)
    also have "\<dots> = round64 (of_nat (digits_value (nat_digits (n div 100)))
                 + of_nat (10 * (n div 10 mod 10) + n mod 10) / 100)"
      by (rule parse_unsigned [OF nat_digits_all nat_digits_nonempty])
    also have "\<dots> = round64 (of_nat n / 100)"
      by (simp only: v)
    finally show ?thesis
      using False unfolding n_def by simp
  qed
qed

end
